theory Spec2Isabelle
  imports Main "HOL-Library.AList"
begin

section \<open>Python values, exceptions and string helpers\<close>

text \<open>
  The repository is Python glue over Flask, Werkzeug, SQLAlchemy, \<open>logging\<close> and
  \<open>requests\<close>. Values that travel through the code (URL variables, configuration values,
  route options, responses) are modelled by one datatype of Python values; every exception
  the code can raise is a value of \<open>error\<close>, and a call that may raise returns
  \<open>error + 'a\<close> with \<open>Inl\<close> for the exception.
\<close>

datatype pyval =
    PNone
  | PBool bool
  | PInt int
  | PStr string
  | PList "pyval list"
  | PTuple "pyval list"
  | PDict "(string \<times> pyval) list"
  | PObject string

datatype error =
    AttributeError string
  | TypeError string
  | KeyError string
  | IndexError
  | NotFound
  | RaisedException string

text \<open>Python truthiness (\<open>bool(v)\<close>): what \<open>if v:\<close> and \<open>v or w\<close> test.\<close>

fun truthy :: "pyval \<Rightarrow> bool" where
  "truthy PNone = False"
| "truthy (PBool b) = b"
| "truthy (PInt i) = (i \<noteq> 0)"
| "truthy (PStr s) = (s \<noteq> [])"
| "truthy (PList xs) = (xs \<noteq> [])"
| "truthy (PTuple xs) = (xs \<noteq> [])"
| "truthy (PDict kvs) = (kvs \<noteq> [])"
| "truthy (PObject n) = True"

text \<open>\<open>s.startswith(p)\<close> and \<open>s.endswith(p)\<close> of Python's \<open>str\<close>.\<close>

definition startswith :: "string \<Rightarrow> string \<Rightarrow> bool" where
  "startswith s p = (take (length p) s = p)"

definition endswith :: "string \<Rightarrow> string \<Rightarrow> bool" where
  "endswith s p = (length p \<le> length s \<and> drop (length s - length p) s = p)"

section \<open>Class-based views (\<open>coaster/views/classview.py\<close>)\<close>

subsection \<open>\<open>rulejoin\<close>\<close>

text \<open>
  \<^verbatim>\<open>
  def rulejoin(class_rule, method_rule):
      if method_rule.startswith('/'):
          return method_rule
      else:
          return class_rule + ('' if class_rule.endswith('/') or not method_rule else '/') + method_rule
  \<close>
\<close>

definition rulejoin :: "string \<Rightarrow> string \<Rightarrow> string" where
  "rulejoin class_rule method_rule =
     (if startswith method_rule ''/'' then method_rule
      else class_rule
             @ (if endswith class_rule ''/'' \<or> \<not> truthy (PStr method_rule) then '''' else ''/'')
             @ method_rule)"

subsection \<open>Dictionaries\<close>

text \<open>
  A Python \<open>dict\<close> is an association list with insertion order: \<open>d[k] = v\<close> is
  \<open>AList.update\<close> (an existing key keeps its place, a new one is appended), lookup is
  \<open>map_of\<close>, \<open>d.items()\<close> is the list itself.
\<close>

type_synonym options = "(string \<times> pyval) list"
type_synonym kwargs = "(string \<times> pyval) list"
type_synonym routes = "(string \<times> options) list"

text \<open>\<open>d.update(other)\<close>, on a copy of \<open>d\<close>.\<close>

definition dict_update :: "('k \<times> 'v) list \<Rightarrow> ('k \<times> 'v) list \<Rightarrow> ('k \<times> 'v) list" where
  "dict_update d other = fold (\<lambda>(k, v). AList.update k v) other d"

text \<open>\<open>d.pop(k, default)\<close>: the value and the dictionary without the key.\<close>

definition dict_pop :: "('k \<times> 'v) list \<Rightarrow> 'k \<Rightarrow> 'v \<Rightarrow> 'v \<times> ('k \<times> 'v) list" where
  "dict_pop d k dflt =
     (case map_of d k of Some v \<Rightarrow> (v, AList.delete k d) | None \<Rightarrow> (dflt, d))"

subsection \<open>View instances, Python functions and \<open>ViewDecorator\<close>\<close>

text \<open>
  A view instance carries the two attributes \<open>ModelView.before_request\<close> sets; \<open>None\<close>
  means the attribute has not been set yet (reading it raises \<open>AttributeError\<close>).
  A Python function is its \<open>__name__\<close> and what a call with \<open>(self, *args, **kwargs)\<close>
  returns or raises.
\<close>

record view_inst =
  inst_kwargs :: "kwargs option"
  inst_obj :: "pyval option"

record pyfunction =
  func_name :: string
  call :: "view_inst \<Rightarrow> pyval list \<Rightarrow> kwargs \<Rightarrow> error + pyval"

text \<open>
  \<^verbatim>\<open>
  class ViewDecorator(object):
      def __init__(self, rule, **options):
          self.routes = [(rule, options)]
  \<close>
  After \<open>__call__\<close> the object also has \<open>func\<close> and \<open>name\<close>.
\<close>

record view_decorator =
  vd_routes :: routes
  vd_func :: pyfunction
  vd_name :: string

text \<open>
  What a class \<open>__dict__\<close> can hold under a name: a \<open>ViewDecorator\<close>, a plain function
  (an undecorated method), or any other value.
\<close>

datatype attr =
    ViewDecoratorAttr view_decorator
  | FunctionAttr pyfunction
  | ValueAttr pyval

record pyclass =
  cls_name :: string
  cls_dict :: "(string \<times> attr) list"

text \<open>\<open>route(rule, **options)\<close>: the routes of the fresh \<open>ViewDecorator\<close>.\<close>

definition route :: "string \<Rightarrow> options \<Rightarrow> routes" where
  "route rule opts = [(rule, opts)]"

text \<open>
  \<open>ViewDecorator.__call__\<close> on a method (the branch for a decorated \<open>ClassView\<close> class only
  extends the class's \<open>__routes__\<close>, which the model takes resolved, see \<open>cv_routes\<close>):
  \<^verbatim>\<open>
        elif isinstance(decorated, (ViewDecorator, ViewDecoratorWrapper)):
            self.routes.extend(decorated.routes)
            self.func = decorated.func
        else:
            self.func = decorated
        self.name = self.__name__ = self.func.__name__
  \<close>
  The first argument is \<open>self.routes\<close>. A \<open>ValueAttr\<close> is a value without \<open>__name__\<close>: a
  data attribute, or a \<open>classmethod\<close> object as Python up to 3.9 has it (from 3.10 on it
  has the \<open>__name__\<close> of its function, and would be wrapped like one).
\<close>

fun ViewDecorator_call :: "routes \<Rightarrow> attr \<Rightarrow> error + view_decorator" where
  "ViewDecorator_call self_routes (ViewDecoratorAttr decorated) =
     Inr \<lparr>vd_routes = self_routes @ vd_routes decorated, vd_func = vd_func decorated,
          vd_name = func_name (vd_func decorated)\<rparr>"
| "ViewDecorator_call self_routes (FunctionAttr f) =
     Inr \<lparr>vd_routes = self_routes, vd_func = f, vd_name = func_name f\<rparr>"
| "ViewDecorator_call self_routes (ValueAttr v) = Inl (AttributeError ''__name__'')"

text \<open>
  \<^verbatim>\<open>
    def reroute(self, f):
        r = type(self)('')
        r.routes = self.routes
        return r.__call__(f)
  \<close>
  The model is \<open>reroute\<close> applied to a function, its use in the test suite; there
  \<open>r.routes\<close>, which is the very list of \<open>self\<close>, is only read.
\<close>

definition reroute :: "view_decorator \<Rightarrow> pyfunction \<Rightarrow> error + view_decorator" where
  "reroute self f = ViewDecorator_call (vd_routes self) (FunctionAttr f)"

subsection \<open>The ORM as the loader sees it\<close>

text \<open>
  \<open>source\<close> is what the variable \<open>source\<close> of \<open>InstanceLoader.loader\<close> can hold: a mapped
  class, an \<open>InstrumentedAttribute\<close> (named by a key, with its \<open>property\<close>), or another
  object. A relationship's \<open>property.argument\<close> is a \<open>Mapper\<close> (whose \<open>class_\<close> is kept) or
  is taken as the related class itself.
  A query is the chain of generative calls made on it; \<open>query.join(c)\<close> and
  \<open>query.filter(source == value)\<close> return the chain extended.
\<close>

datatype source =
    ModelClass string
  | InstrumentedAttribute string property
  | OtherObject string
and property =
    ColumnProperty
  | RelationshipProperty argument
and argument =
    Mapper source
  | Direct source

datatype query_op = Join source | Filter source pyval

type_synonym query = "query_op list"

text \<open>
  What SQLAlchemy and the database answer: \<open>getattr(source, subname)\<close> (\<open>None\<close>:
  \<open>AttributeError\<close>), \<open>model.query\<close>, and \<open>query.one_or_404()\<close>, which runs the query.
\<close>

record orm_env =
  py_getattr :: "source \<Rightarrow> string \<Rightarrow> source option"
  model_query :: "source \<Rightarrow> query option"
  one_or_404 :: "query \<Rightarrow> error + pyval"

subsection \<open>\<open>ClassView\<close> and its subclasses\<close>

text \<open>
  A view class: \<open>__name__\<close>, \<open>__mro__\<close> (each class with its own \<open>__dict__\<close>, the class
  itself first), and the class attributes as attribute lookup on the class resolves them:
  \<open>__routes__\<close>, \<open>__decorators__\<close>, which \<open>before_request\<close> and \<open>loader\<close> the instance
  gets, \<open>model\<close>, \<open>query\<close> (\<open>None\<close> for Python's \<open>None\<close>) and \<open>route_model_map\<close>.
\<close>

datatype before_request_method = BeforeRequest_ClassView | BeforeRequest_ModelView

datatype loader_method = Loader_ModelView | Loader_InstanceLoader

record classview =
  cv_name :: string
  cv_mro :: "pyclass list"
  cv_routes :: routes
  cv_decorators :: "(pyfunction \<Rightarrow> pyfunction) list"
  cv_before_request :: before_request_method
  cv_loader :: loader_method
  cv_model :: source
  cv_query :: "query option"
  cv_route_model_map :: "(string \<times> string) list"

text \<open>
  The function \<open>ViewDecorator.init_app\<close> registers: \<open>view_func\<close> with the attributes
  \<open>__name__\<close>, \<open>wrapped_func\<close> and \<open>view_class\<close> stuck on it.
\<close>

record view_func =
  vf_name :: string
  wrapped_func :: pyfunction
  view_class :: classview

text \<open>
  The Flask application keeps the calls of \<open>app.add_url_rule(rule, endpoint, view_func,
  **options)\<close> in order.
\<close>

type_synonym url_rule = "string \<times> pyval \<times> view_func \<times> options"

record app =
  url_map :: "url_rule list"

definition add_url_rule :: "url_rule \<Rightarrow> app \<Rightarrow> app" where
  "add_url_rule r a = a\<lparr>url_map := url_map a @ [r]\<rparr>"

text \<open>
  \<^verbatim>\<open>
    def init_app(self, app, cls, callback=None):
        endpoint = cls.__name__ + '_' + self.name
        ...
        wrapped_func = self.func
        for decorator in cls.__decorators__:
            wrapped_func = decorator(wrapped_func)
        view_func = update_wrapper(view_func, wrapped_func)
        view_func.__name__ = self.name
        view_func.wrapped_func = wrapped_func
        view_func.view_class = cls
        for class_rule, class_options in cls.__routes__:
            for method_rule, method_options in self.routes:
                use_options = dict(method_options)
                use_options.update(class_options)
                endpoint = use_options.pop('endpoint', endpoint)
                use_rule = rulejoin(class_rule, method_rule)
                app.add_url_rule(use_rule, endpoint, view_func, **use_options)
                if callback:
                    callback(use_rule, endpoint, view_func, **use_options)
  \<close>
  The variable \<open>endpoint\<close> is carried from one iteration to the next, as in the source. A
  callback is a function of the call's arguments on the application state. \<open>view_func_of\<close>
  is the \<open>view_func\<close> object the method builds before it registers the rules.
\<close>

definition view_func_of :: "view_decorator \<Rightarrow> classview \<Rightarrow> view_func" where
  "view_func_of self cls =
     \<lparr>vf_name = vd_name self,
      wrapped_func = fold (\<lambda>decorator f. decorator f) (cv_decorators cls) (vd_func self),
      view_class = cls\<rparr>"

definition ViewDecorator_init_app ::
  "view_decorator \<Rightarrow> classview \<Rightarrow> (url_rule \<Rightarrow> app \<Rightarrow> app) option \<Rightarrow> app \<Rightarrow> app" where
  "ViewDecorator_init_app self cls callback a =
     (let endpoint0 = PStr (cv_name cls @ ''_'' @ vd_name self);
          vf = view_func_of self cls
      in snd (fold (\<lambda>(class_rule, class_options).
                 fold (\<lambda>(method_rule, method_options) (endpoint, a1).
                         let use_options = dict_update method_options class_options;
                             (endpoint', use_options') = dict_pop use_options ''endpoint'' endpoint;
                             use_rule = rulejoin class_rule method_rule;
                             a2 = add_url_rule (use_rule, endpoint', vf, use_options') a1
                         in (endpoint',
                             case callback of
                               None \<Rightarrow> a2
                             | Some cb \<Rightarrow> cb (use_rule, endpoint', vf, use_options') a2))
                      (vd_routes self))
              (cv_routes cls) (endpoint0, a)))"

text \<open>
  \<^verbatim>\<open>
    @classmethod
    def __get_raw_attr(cls, name):
        for base in cls.__mro__:
            if name in base.__dict__:
                return base.__dict__[name]
        raise AttributeError(name)
  \<close>
\<close>

fun get_raw_attr :: "pyclass list \<Rightarrow> string \<Rightarrow> error + attr" where
  "get_raw_attr [] name = Inl (AttributeError name)"
| "get_raw_attr (base # bases) name =
     (case map_of (cls_dict base) name of
        Some a \<Rightarrow> Inr a
      | None \<Rightarrow> get_raw_attr bases name)"

text \<open>
  \<^verbatim>\<open>
    @classmethod
    def add_route_for(cls, _name, rule, **options):
        setattr(cls, _name, route(rule, **options)(cls.__get_raw_attr(_name)))
  \<close>
  \<open>setattr\<close> writes into the class's own \<open>__dict__\<close>, the first of its \<open>__mro__\<close>.
\<close>

definition add_route_for :: "classview \<Rightarrow> string \<Rightarrow> string \<Rightarrow> options \<Rightarrow> error + classview" where
  "add_route_for cls name rule opts =
     (case get_raw_attr (cv_mro cls) name of
        Inl e \<Rightarrow> Inl e
      | Inr raw \<Rightarrow>
          (case ViewDecorator_call (route rule opts) raw of
             Inl e \<Rightarrow> Inl e
           | Inr vd \<Rightarrow>
               (case cv_mro cls of
                  [] \<Rightarrow> Inl (AttributeError name)
                | own # bases \<Rightarrow>
                    Inr (cls\<lparr>cv_mro :=
                           own\<lparr>cls_dict := AList.update name (ViewDecoratorAttr vd) (cls_dict own)\<rparr>
                             # bases\<rparr>))))"

text \<open>
  \<^verbatim>\<open>
    @classmethod
    def init_app(cls, app, callback=None):
        processed = set()
        for base in cls.__mro__:
            for name, attr in base.__dict__.items():
                if name in processed:
                    continue
                processed.add(name)
                if isinstance(attr, ViewDecorator):
                    attr.__set_name__(base, name)  # Required for Python < 3.6
                    attr.init_app(app, cls, callback=callback)
  \<close>
  The inner loop is \<open>init_app_items\<close>, on the state \<open>(processed, app)\<close>;
  \<open>__set_name__\<close> sets \<open>attr.name\<close>.
\<close>

fun init_app_items ::
  "classview \<Rightarrow> (url_rule \<Rightarrow> app \<Rightarrow> app) option \<Rightarrow> (string \<times> attr) list
     \<Rightarrow> string set \<times> app \<Rightarrow> string set \<times> app" where
  "init_app_items cls callback [] st = st"
| "init_app_items cls callback ((name, a) # items) (processed, ap) =
     (if name \<in> processed then init_app_items cls callback items (processed, ap)
      else
        (case a of
           ViewDecoratorAttr vd \<Rightarrow>
             init_app_items cls callback items
               (insert name processed,
                ViewDecorator_init_app (vd\<lparr>vd_name := name\<rparr>) cls callback ap)
         | _ \<Rightarrow> init_app_items cls callback items (insert name processed, ap)))"

definition ClassView_init_app ::
  "classview \<Rightarrow> (url_rule \<Rightarrow> app \<Rightarrow> app) option \<Rightarrow> app \<Rightarrow> app" where
  "ClassView_init_app cls callback ap =
     snd (fold (\<lambda>base. init_app_items cls callback (cls_dict base)) (cv_mro cls) ({}, ap))"

text \<open>
  The registrations the claim describes, for comparison with the loop: the attribute names
  of the classes of the MRO in order of first appearance, each with the definition
  \<open>get_raw_attr\<close> finds (that of the most-derived class defining the name), kept when that
  definition is a \<open>ViewDecorator\<close>.
\<close>

primrec first_occurrences :: "'a list \<Rightarrow> 'a list" where
  "first_occurrences [] = []"
| "first_occurrences (x # xs) = x # filter (\<lambda>y. y \<noteq> x) (first_occurrences xs)"

definition mro_names :: "pyclass list \<Rightarrow> string list" where
  "mro_names mro = first_occurrences (concat (map (\<lambda>base. map fst (cls_dict base)) mro))"

definition registered_views :: "pyclass list \<Rightarrow> (string \<times> view_decorator) list" where
  "registered_views mro =
     concat (map (\<lambda>name. case get_raw_attr mro name of
                            Inr (ViewDecoratorAttr vd) \<Rightarrow> [(name, vd)]
                          | _ \<Rightarrow> [])
                 (mro_names mro))"

text \<open>Auxiliary functions of the proofs about \<open>init_app\<close>.\<close>

fun select_views :: "string set \<Rightarrow> (string \<times> attr) list \<Rightarrow> (string \<times> view_decorator) list" where
  "select_views P [] = []"
| "select_views P ((n, a) # xs) =
     (if n \<in> P then select_views P xs
      else (case a of
              ViewDecoratorAttr vd \<Rightarrow> (n, vd) # select_views (insert n P) xs
            | _ \<Rightarrow> select_views (insert n P) xs))"

definition register_all ::
  "classview \<Rightarrow> (url_rule \<Rightarrow> app \<Rightarrow> app) option \<Rightarrow> (string \<times> view_decorator) list \<Rightarrow> app \<Rightarrow> app" where
  "register_all cls callback views ap =
     fold (\<lambda>(name, vd). ViewDecorator_init_app (vd\<lparr>vd_name := name\<rparr>) cls callback) views ap"

definition view_entry :: "(string \<times> attr) list \<Rightarrow> string \<Rightarrow> (string \<times> view_decorator) list" where
  "view_entry xs n = (case map_of xs n of Some (ViewDecoratorAttr vd) \<Rightarrow> [(n, vd)] | _ \<Rightarrow> [])"

subsection \<open>The classes of the test suite (\<open>tests/test_views_classview.py\<close>)\<close>

text \<open>
  \<open>BaseView\<close> and its subclass \<open>SubView\<close>, with the \<open>__dict__\<close> entries the class bodies
  create in order. A view method that returns a fixed text is \<open>returns name text\<close>.
  \<^verbatim>\<open>
  class BaseView(ClassView):
      @route('')
      def first(self): return 'first'
      @route('second')
      def second(self): return 'second'
      @route('third')
      def third(self): return 'third'
      @route('inherited')
      def inherited(self): return 'inherited'
      @route('also-inherited')
      def also_inherited(self): return 'also_inherited'
      def latent_route(self): return 'latent-route'

  @route('/subclasstest')
  class SubView(BaseView):
      @BaseView.first.reroute
      def first(self): return 'rerouted-first'
      @route('2')
      @BaseView.second.reroute
      def second(self): return 'rerouted-second'
      def third(self): return 'removed-third'

  SubView.add_route_for('also_inherited', '/inherited')
  SubView.add_route_for('also_inherited', 'inherited2')
  SubView.add_route_for('latent_route', 'latent')
  \<close>
\<close>

definition returns :: "string \<Rightarrow> string \<Rightarrow> pyfunction" where
  "returns name text = \<lparr>func_name = name, call = (\<lambda>self args kw. Inr (PStr text))\<rparr>"

definition routed :: "routes \<Rightarrow> pyfunction \<Rightarrow> attr" where
  "routed rs f = ViewDecoratorAttr \<lparr>vd_routes = rs, vd_func = f, vd_name = func_name f\<rparr>"

definition ClassView_class :: pyclass where
  "ClassView_class =
     \<lparr>cls_name = ''ClassView'',
      cls_dict = [(''__routes__'', ValueAttr (PList [PTuple [PStr '''', PDict []]])),
                  (''__decorators__'', ValueAttr (PList [])),
                  (''before_request'', FunctionAttr (returns ''before_request'' '''')),
                  (''add_route_for'', ValueAttr (PObject ''classmethod'')),
                  (''init_app'', ValueAttr (PObject ''classmethod''))]\<rparr>"

definition BaseView_class :: pyclass where
  "BaseView_class =
     \<lparr>cls_name = ''BaseView'',
      cls_dict = [(''first'', routed (route '''' []) (returns ''first'' ''first'')),
                  (''second'', routed (route ''second'' []) (returns ''second'' ''second'')),
                  (''third'', routed (route ''third'' []) (returns ''third'' ''third'')),
                  (''inherited'', routed (route ''inherited'' []) (returns ''inherited'' ''inherited'')),
                  (''also_inherited'',
                     routed (route ''also-inherited'' []) (returns ''also_inherited'' ''also_inherited'')),
                  (''latent_route'', FunctionAttr (returns ''latent_route'' ''latent-route''))]\<rparr>"

definition SubView_body :: pyclass where
  "SubView_body =
     \<lparr>cls_name = ''SubView'',
      cls_dict = [(''first'', routed (route '''' []) (returns ''first'' ''rerouted-first'')),
                  (''second'',
                     routed (route ''2'' [] @ route ''second'' []) (returns ''second'' ''rerouted-second'')),
                  (''third'', FunctionAttr (returns ''third'' ''removed-third'')),
                  (''__routes__'', ValueAttr (PList [PTuple [PStr ''/subclasstest'', PDict []]]))]\<rparr>"

definition SubView_declared :: classview where
  "SubView_declared =
     \<lparr>cv_name = ''SubView'',
      cv_mro = [SubView_body, BaseView_class, ClassView_class],
      cv_routes = route ''/subclasstest'' [],
      cv_decorators = [],
      cv_before_request = BeforeRequest_ClassView,
      cv_loader = Loader_ModelView,
      cv_model = OtherObject ''None'',
      cv_query = None,
      cv_route_model_map = []\<rparr>"

definition SubView_class :: pyclass where
  "SubView_class =
     SubView_body\<lparr>cls_dict := cls_dict SubView_body @
        [(''also_inherited'',
            routed (route ''inherited2'' [] @ route ''/inherited'' [] @ route ''also-inherited'' [])
                   (returns ''also_inherited'' ''also_inherited'')),
         (''latent_route'', routed (route ''latent'' []) (returns ''latent_route'' ''latent-route''))]\<rparr>"

definition SubView :: classview where
  "SubView = SubView_declared\<lparr>cv_mro := [SubView_class, BaseView_class, ClassView_class]\<rparr>"

text \<open>What a test client sees of a registration: the rule, the endpoint and the view's name.\<close>

definition rule_summary :: "url_rule \<Rightarrow> string \<times> pyval \<times> string" where
  "rule_summary r = (case r of (rule, endpoint, vf, opts) \<Rightarrow> (rule, endpoint, vf_name vf))"

subsection \<open>\<open>ModelView\<close>, \<open>InstanceLoader\<close> and the call of a view\<close>

text \<open>
  A call \<open>f(a, ..., **kwargs)\<close> raises \<open>TypeError\<close> when a key of \<open>kwargs\<close> is the name of a
  parameter that the call already binds positionally.
\<close>

definition keyword_clash :: "string list \<Rightarrow> kwargs \<Rightarrow> bool" where
  "keyword_clash params kw = list_ex (\<lambda>p. p \<in> set (map fst kw)) params"

text \<open>
  \<^verbatim>\<open>
  def _modelview_view_decorator(f):
      @wraps(f)
      def inner(self, **kwargs):
          return f(self)
      return inner
  \<close>
  \<open>inner\<close> takes \<open>self\<close> as its only positional parameter.
\<close>

definition modelview_view_decorator :: "pyfunction \<Rightarrow> pyfunction" where
  "modelview_view_decorator f =
     \<lparr>func_name = func_name f,
      call = (\<lambda>self args kw.
                if args \<noteq> [] \<or> keyword_clash [''self''] kw
                then Inl (TypeError ''inner'')
                else call f self [] [])\<rparr>"

text \<open>
  \<^verbatim>\<open>
  class ClassView(object):
      __decorators__ = []
  class ModelView(ClassView):
      __decorators__ = ClassView.__decorators__ + [_modelview_view_decorator]
  \<close>
\<close>

definition ClassView_decorators :: "(pyfunction \<Rightarrow> pyfunction) list" where
  "ClassView_decorators = []"

definition ModelView_decorators :: "(pyfunction \<Rightarrow> pyfunction) list" where
  "ModelView_decorators = ClassView_decorators @ [modelview_view_decorator]"

text \<open>\<open>name.split('.')\<close>: the pieces between the separators, empty pieces included.\<close>

fun split_sep :: "char \<Rightarrow> string \<Rightarrow> string list" where
  "split_sep c [] = [[]]"
| "split_sep c (x # xs) =
     (if x = c then [] # split_sep c xs
      else (case split_sep c xs of
              [] \<Rightarrow> [[x]]
            | w # ws \<Rightarrow> (x # w) # ws))"

text \<open>The class a relationship leads to: \<open>argument.class_\<close> of a \<open>Mapper\<close>, else the argument.\<close>

fun related_class :: "argument \<Rightarrow> source" where
  "related_class (Mapper c) = c"
| "related_class (Direct c) = c"

text \<open>
  The inner loop of \<open>InstanceLoader.loader\<close>, on the state \<open>(source, query, joined_models)\<close>:
  \<^verbatim>\<open>
                    for subname in name.split('.'):
                        source = getattr(source, subname)
                        if isinstance(source, InstrumentedAttribute):
                            if isinstance(source.property, RelationshipProperty):
                                if isinstance(source.property.argument, Mapper):
                                    source = source.property.argument.class_
                                else:
                                    source = source.property.argument
                                if source not in joined_models:
                                    query = query.join(source)
                                    joined_models.add(source)
  \<close>
\<close>

fun loader_walk ::
  "orm_env \<Rightarrow> string list \<Rightarrow> source \<times> query \<times> source set \<Rightarrow> error + (source \<times> query \<times> source set)" where
  "loader_walk env [] st = Inr st"
| "loader_walk env (subname # rest) (source, query, joined_models) =
     (case py_getattr env source subname of
        None \<Rightarrow> Inl (AttributeError subname)
      | Some (InstrumentedAttribute key (RelationshipProperty arg)) \<Rightarrow>
          (let source' = related_class arg in
           if source' \<notin> joined_models
           then loader_walk env rest (source', query @ [Join source'], insert source' joined_models)
           else loader_walk env rest (source', query, joined_models))
      | Some source' \<Rightarrow> loader_walk env rest (source', query, joined_models))"

text \<open>
  The outer loop, on the state \<open>(query, joined_models)\<close>:
  \<^verbatim>\<open>
            for name, value in filters.items():
                if '.' in name:
                    source = self.model
                    for subname in name.split('.'):
                        ...
                    query = query.filter(source == value)
                else:
                    query = query.filter(getattr(self.model, name) == value)
  \<close>
\<close>

fun loader_loop ::
  "orm_env \<Rightarrow> source \<Rightarrow> (string \<times> pyval) list \<Rightarrow> query \<times> source set \<Rightarrow> error + (query \<times> source set)" where
  "loader_loop env model [] st = Inr st"
| "loader_loop env model ((name, v) # filters) (query, joined_models) =
     (if CHR ''.'' \<in> set name
      then (case loader_walk env (split_sep CHR ''.'' name) (model, query, joined_models) of
              Inl e \<Rightarrow> Inl e
            | Inr (source, query', joined_models') \<Rightarrow>
                loader_loop env model filters (query' @ [Filter source v], joined_models'))
      else (case py_getattr env model name of
              None \<Rightarrow> Inl (AttributeError name)
            | Some a \<Rightarrow> loader_loop env model filters (query @ [Filter a v], joined_models)))"

text \<open>
  \<^verbatim>\<open>
            filters = {self.route_model_map[key]: value
                for key, value in self.kwargs.items()
                if key in self.route_model_map}
  \<close>
\<close>

definition loader_filters :: "(string \<times> string) list \<Rightarrow> kwargs \<Rightarrow> (string \<times> pyval) list" where
  "loader_filters route_model_map kw =
     fold (\<lambda>(key, v) filters.
             case map_of route_model_map key of
               Some a \<Rightarrow> AList.update a v filters
             | None \<Rightarrow> filters)
          kw []"

text \<open>\<open>query = self.query or self.model.query\<close>; a query object is truthy.\<close>

definition base_query :: "orm_env \<Rightarrow> classview \<Rightarrow> query option" where
  "base_query env cls =
     (case cv_query cls of Some q \<Rightarrow> Some q | None \<Rightarrow> model_query env (cv_model cls))"

text \<open>
  \<^verbatim>\<open>
    def loader(self):
        if any((name in self.route_model_map for name in self.kwargs)):
            filters = ...
            query = self.query or self.model.query
            joined_models = set()
            for name, value in filters.items():
                ...
            return query.one_or_404()
  \<close>
  The result is the list of the queries run on the database, and what the call returns or
  raises. A function that falls off its end returns \<open>None\<close>.
\<close>

definition InstanceLoader_loader :: "orm_env \<Rightarrow> classview \<Rightarrow> view_inst \<Rightarrow> query list \<times> (error + pyval)" where
  "InstanceLoader_loader env cls self =
     (case inst_kwargs self of
        None \<Rightarrow> ([], Inl (AttributeError ''kwargs''))
      | Some kw \<Rightarrow>
          if list_ex (\<lambda>name. map_of (cv_route_model_map cls) name \<noteq> None) (map fst kw)
          then
            (let filters = loader_filters (cv_route_model_map cls) kw in
             case base_query env cls of
               None \<Rightarrow> ([], Inl (AttributeError ''query''))
             | Some query \<Rightarrow>
                 (case loader_loop env (cv_model cls) filters (query, {}) of
                    Inl e \<Rightarrow> ([], Inl e)
                  | Inr (query', joined_models) \<Rightarrow> ([query'], one_or_404 env query')))
          else ([], Inr PNone))"

text \<open>\<open>ModelView.loader\<close>: \<open>pass\<close>.\<close>

definition ModelView_loader :: "query list \<times> (error + pyval)" where
  "ModelView_loader = ([], Inr PNone)"

definition call_loader :: "orm_env \<Rightarrow> classview \<Rightarrow> view_inst \<Rightarrow> query list \<times> (error + pyval)" where
  "call_loader env cls self =
     (case cv_loader cls of
        Loader_ModelView \<Rightarrow> ModelView_loader
      | Loader_InstanceLoader \<Rightarrow> InstanceLoader_loader env cls self)"

text \<open>
  \<^verbatim>\<open>
  class ClassView(object):
      def before_request(self, _view, **kwargs):
          pass

  class ModelView(ClassView):
      def before_request(self, _view, **kwargs):
          super(ModelView, self).before_request(_view, **kwargs)
          self.kwargs = kwargs
          self.obj = self.loader()
  \<close>
  Both return the instance as they leave it.
\<close>

definition ClassView_before_request :: "view_inst \<Rightarrow> string \<Rightarrow> kwargs \<Rightarrow> error + view_inst" where
  "ClassView_before_request self view kw =
     (if keyword_clash [''self'', ''_view''] kw then Inl (TypeError ''before_request'') else Inr self)"

definition ModelView_before_request ::
  "orm_env \<Rightarrow> classview \<Rightarrow> view_inst \<Rightarrow> string \<Rightarrow> kwargs \<Rightarrow> query list \<times> (error + view_inst)" where
  "ModelView_before_request env cls self view kw =
     (if keyword_clash [''self'', ''_view''] kw then ([], Inl (TypeError ''before_request''))
      else
        (case ClassView_before_request self view kw of
           Inl e \<Rightarrow> ([], Inl e)
         | Inr self1 \<Rightarrow>
             (let self2 = self1\<lparr>inst_kwargs := Some kw\<rparr> in
              case call_loader env cls self2 of
                (queries, Inl e) \<Rightarrow> (queries, Inl e)
              | (queries, Inr r) \<Rightarrow> (queries, Inr (self2\<lparr>inst_obj := Some r\<rparr>)))))"

definition before_request ::
  "orm_env \<Rightarrow> classview \<Rightarrow> view_inst \<Rightarrow> string \<Rightarrow> kwargs \<Rightarrow> query list \<times> (error + view_inst)" where
  "before_request env cls self view kw =
     (case cv_before_request cls of
        BeforeRequest_ClassView \<Rightarrow> ([], ClassView_before_request self view kw)
      | BeforeRequest_ModelView \<Rightarrow> ModelView_before_request env cls self view kw)"

text \<open>
  The function registered with the application:
  \<^verbatim>\<open>
        def view_func(*args, **kwargs):
            viewinst = view_func.view_class()
            viewinst.before_request(view_func.__name__, **kwargs)
            return view_func.wrapped_func(viewinst, *args, **kwargs)
  \<close>
  A new instance has neither \<open>kwargs\<close> nor \<open>obj\<close>.
\<close>

definition new_instance :: view_inst where
  "new_instance = \<lparr>inst_kwargs = None, inst_obj = None\<rparr>"

definition view_func_call ::
  "orm_env \<Rightarrow> view_func \<Rightarrow> pyval list \<Rightarrow> kwargs \<Rightarrow> query list \<times> (error + pyval)" where
  "view_func_call env vf args kw =
     (case before_request env (view_class vf) new_instance (vf_name vf) kw of
        (queries, Inl e) \<Rightarrow> (queries, Inl e)
      | (queries, Inr viewinst) \<Rightarrow> (queries, call (wrapped_func vf) viewinst args kw))"

text \<open>
  What the claims say the loader builds, for comparison with the loops. \<open>resolve_path\<close>
  follows a dotted path from a class: the object the filter compares, and the related
  classes the relationships on the path lead to, in order. \<open>filter_target\<close> does so for one
  mapped attribute name.
\<close>

fun resolve_path :: "orm_env \<Rightarrow> source \<Rightarrow> string list \<Rightarrow> error + (source \<times> source list)" where
  "resolve_path env source [] = Inr (source, [])"
| "resolve_path env source (subname # rest) =
     (case py_getattr env source subname of
        None \<Rightarrow> Inl (AttributeError subname)
      | Some (InstrumentedAttribute key (RelationshipProperty arg)) \<Rightarrow>
          (case resolve_path env (related_class arg) rest of
             Inl e \<Rightarrow> Inl e
           | Inr (target, classes) \<Rightarrow> Inr (target, related_class arg # classes))
      | Some source' \<Rightarrow> resolve_path env source' rest)"

definition filter_target :: "orm_env \<Rightarrow> source \<Rightarrow> string \<Rightarrow> error + (source \<times> source list)" where
  "filter_target env model name =
     (if CHR ''.'' \<in> set name then resolve_path env model (split_sep CHR ''.'' name)
      else (case py_getattr env model name of
              None \<Rightarrow> Inl (AttributeError name)
            | Some a \<Rightarrow> Inr (a, [])))"

definition joins_of :: "query \<Rightarrow> source list" where
  "joins_of q = concat (map (\<lambda>op. case op of Join c \<Rightarrow> [c] | Filter a v \<Rightarrow> []) q)"

definition filters_of :: "query \<Rightarrow> (source \<times> pyval) list" where
  "filters_of q = concat (map (\<lambda>op. case op of Join c \<Rightarrow> [] | Filter a v \<Rightarrow> [(a, v)]) q)"

text \<open>The filter targets and related classes of a whole filter dictionary, when all resolve.\<close>

fun filter_targets ::
  "orm_env \<Rightarrow> source \<Rightarrow> (string \<times> pyval) list \<Rightarrow> error + ((source \<times> pyval) list \<times> source list)" where
  "filter_targets env model [] = Inr ([], [])"
| "filter_targets env model ((name, v) # filters) =
     (case filter_target env model name of
        Inl e \<Rightarrow> Inl e
      | Inr (target, classes) \<Rightarrow>
          (case filter_targets env model filters of
             Inl e \<Rightarrow> Inl e
           | Inr (targets, classes') \<Rightarrow> Inr ((target, v) # targets, classes @ classes')))"

subsection \<open>The model views of the test suite\<close>

text \<open>
  \<^verbatim>\<open>
  class ScopedViewDocument(BaseScopedNameMixin, db.Model):
      parent = db.relationship(ViewDocument, ...)

  @route('/model/<document>')
  class ModelDocumentView(UrlForView, InstanceLoader, ModelView):
      model = ViewDocument
      route_model_map = {'document': 'name'}
      @route('')
      def view(self):
          return self.obj

  @route('/model/<parent>/<document>')
  class ScopedDocumentView(ModelDocumentView):
      model = ScopedViewDocument
      route_model_map = {'document': 'name', 'parent': 'parent.name'}
  \<close>
  (the test's view also renders \<open>self.obj\<close> as JSON, which is left out).
  The database of \<open>test_scopedmodelview_view\<close> holds the document \<open>test1\<close> and its child
  \<open>test2\<close>; \<open>test_db\<close> lists the queries that find a row.
\<close>

definition ViewDocument :: source where
  "ViewDocument = ModelClass ''ViewDocument''"

definition ScopedViewDocument :: source where
  "ScopedViewDocument = ModelClass ''ScopedViewDocument''"

definition ViewDocument_name :: source where
  "ViewDocument_name = InstrumentedAttribute ''ViewDocument.name'' ColumnProperty"

definition ScopedViewDocument_name :: source where
  "ScopedViewDocument_name = InstrumentedAttribute ''ScopedViewDocument.name'' ColumnProperty"

definition ViewDocument_title :: source where
  "ViewDocument_title = InstrumentedAttribute ''ViewDocument.title'' ColumnProperty"

definition test_orm_attrs :: "((source \<times> string) \<times> source) list" where
  "test_orm_attrs =
     [((ViewDocument, ''name''), ViewDocument_name),
      ((ViewDocument, ''title''), ViewDocument_title),
      ((ScopedViewDocument, ''name''), ScopedViewDocument_name),
      ((ScopedViewDocument, ''parent''),
         InstrumentedAttribute ''ScopedViewDocument.parent'' (RelationshipProperty (Direct ViewDocument)))]"

definition test_db :: "(query \<times> pyval) list" where
  "test_db =
     [([Filter ViewDocument_name (PStr ''test1'')], PObject ''doc''),
      ([Join ViewDocument, Filter ViewDocument_name (PStr ''test1''),
        Filter ScopedViewDocument_name (PStr ''test2'')], PObject ''sdoc'')]"

definition test_env :: orm_env where
  "test_env =
     \<lparr>py_getattr = (\<lambda>source subname. map_of test_orm_attrs (source, subname)),
      model_query = (\<lambda>model. if model = ViewDocument \<or> model = ScopedViewDocument then Some [] else None),
      one_or_404 = (\<lambda>q. case map_of test_db q of Some row \<Rightarrow> Inr row | None \<Rightarrow> Inl NotFound)\<rparr>"

text \<open>\<open>def view(self): return self.obj\<close>, which takes no further argument.\<close>

definition view_obj :: pyfunction where
  "view_obj =
     \<lparr>func_name = ''view'',
      call = (\<lambda>self args kw.
                if args \<noteq> [] \<or> kw \<noteq> [] then Inl (TypeError ''view'')
                else (case inst_obj self of
                        None \<Rightarrow> Inl (AttributeError ''obj'')
                      | Some row \<Rightarrow> Inr row))\<rparr>"

definition ModelDocumentView_class :: pyclass where
  "ModelDocumentView_class =
     \<lparr>cls_name = ''ModelDocumentView'',
      cls_dict = [(''model'', ValueAttr (PObject ''ViewDocument'')),
                  (''route_model_map'', ValueAttr (PDict [(''document'', PStr ''name'')])),
                  (''view'', routed (route '''' []) view_obj),
                  (''__routes__'', ValueAttr (PList [PTuple [PStr ''/model/<document>'', PDict []]]))]\<rparr>"

definition ModelDocumentView :: classview where
  "ModelDocumentView =
     \<lparr>cv_name = ''ModelDocumentView'',
      cv_mro = [ModelDocumentView_class, ClassView_class],
      cv_routes = route ''/model/<document>'' [],
      cv_decorators = ModelView_decorators,
      cv_before_request = BeforeRequest_ModelView,
      cv_loader = Loader_InstanceLoader,
      cv_model = ViewDocument,
      cv_query = None,
      cv_route_model_map = [(''document'', ''name'')]\<rparr>"

definition ScopedDocumentView_class :: pyclass where
  "ScopedDocumentView_class =
     \<lparr>cls_name = ''ScopedDocumentView'',
      cls_dict = [(''model'', ValueAttr (PObject ''ScopedViewDocument'')),
                  (''route_model_map'',
                     ValueAttr (PDict [(''document'', PStr ''name''), (''parent'', PStr ''parent.name'')])),
                  (''__routes__'',
                     ValueAttr (PList [PTuple [PStr ''/model/<parent>/<document>'', PDict []]]))]\<rparr>"

definition ScopedDocumentView :: classview where
  "ScopedDocumentView =
     \<lparr>cv_name = ''ScopedDocumentView'',
      cv_mro = [ScopedDocumentView_class, ModelDocumentView_class, ClassView_class],
      cv_routes = route ''/model/<parent>/<document>'' [],
      cv_decorators = ModelView_decorators,
      cv_before_request = BeforeRequest_ModelView,
      cv_loader = Loader_InstanceLoader,
      cv_model = ScopedViewDocument,
      cv_query = None,
      cv_route_model_map = [(''document'', ''name''), (''parent'', ''parent.name'')]\<rparr>"

definition view_decorator_view :: view_decorator where
  "view_decorator_view = \<lparr>vd_routes = route '''' [], vd_func = view_obj, vd_name = ''view''\<rparr>"

text \<open>
  A \<open>ModelView\<close> subclass that sets its own \<open>__decorators__\<close>, as the comment on
  \<open>ClassView.__decorators__\<close> invites, and a view method that accepts the URL variables:
  \<^verbatim>\<open>
  @route('/plain/<document>')
  class PlainDocumentView(InstanceLoader, ModelView):
      __decorators__ = []
      model = ViewDocument
      route_model_map = {'document': 'name'}
      @route('')
      def view(self, **kwargs):
          return kwargs
  \<close>
\<close>

definition view_kwargs :: pyfunction where
  "view_kwargs = \<lparr>func_name = ''view'', call = (\<lambda>self args kw. Inr (PDict kw))\<rparr>"

definition PlainDocumentView :: classview where
  "PlainDocumentView =
     \<lparr>cv_name = ''PlainDocumentView'',
      cv_mro = [\<lparr>cls_name = ''PlainDocumentView'',
                 cls_dict = [(''__decorators__'', ValueAttr (PList [])),
                             (''view'', routed (route '''' []) view_kwargs)]\<rparr>,
                ClassView_class],
      cv_routes = route ''/plain/<document>'' [],
      cv_decorators = [],
      cv_before_request = BeforeRequest_ModelView,
      cv_loader = Loader_InstanceLoader,
      cv_model = ViewDocument,
      cv_query = None,
      cv_route_model_map = [(''document'', ''name'')]\<rparr>"

text \<open>Auxiliary function of the proofs about the filter dictionary: one step of its construction.\<close>

definition filters_step ::
  "(string \<times> string) list \<Rightarrow> string \<times> pyval \<Rightarrow> (string \<times> pyval) list \<Rightarrow> (string \<times> pyval) list" where
  "filters_step rmm = (\<lambda>(key, v) filters.
             case map_of rmm key of
               Some a \<Rightarrow> AList.update a v filters
             | None \<Rightarrow> filters)"

section \<open>The logger (\<open>coaster/logger.py\<close>)\<close>

subsection \<open>More of Python's strings and containers\<close>

definition NL :: string where
  "NL = [CHR 0x0A]"

definition TAB :: string where
  "TAB = [CHR 0x09]"

text \<open>\<open>sep.join(xs)\<close>.\<close>

fun join :: "string \<Rightarrow> string list \<Rightarrow> string" where
  "join sep [] = []"
| "join sep [x] = x"
| "join sep (x # y # ys) = x @ sep @ join sep (y # ys)"

text \<open>
  \<open>s.split(sep)\<close> for a separator of one or more characters (the source passes the
  constants \<open>'----------'\<close>, \<open>'----'\<close> and \<open>'\n'\<close>; Python refuses an empty separator, for
  which the model leaves the string whole).
\<close>

function split_on :: "string \<Rightarrow> string \<Rightarrow> string list" where
  "split_on sep s =
     (if sep = [] then [s]
      else if s = [] then [[]]
      else if startswith s sep then [] # split_on sep (drop (length sep) s)
      else (case split_on sep (tl s) of
              [] \<Rightarrow> [[hd s]]
            | w # ws \<Rightarrow> (hd s # w) # ws))"
  by pat_completeness auto
termination
  by (relation "measure (\<lambda>(sep, s). length s)") auto

text \<open>
  \<open>s.strip()\<close>. A character is a code point below 256; the white space of a Python 3 string
  among these is the ASCII white space, the separators \<open>\x1c\<close> to \<open>\x1f\<close>, \<open>\x85\<close> and
  \<open>\xa0\<close>.
\<close>

definition is_space :: "char \<Rightarrow> bool" where
  "is_space c =
     (c \<in> set [CHR '' '', CHR 0x09, CHR 0x0A, CHR 0x0B, CHR 0x0C, CHR 0x0D,
                CHR 0x1C, CHR 0x1D, CHR 0x1E, CHR 0x1F, CHR 0x85, CHR 0xA0])"

definition strip :: "string \<Rightarrow> string" where
  "strip s = rev (dropWhile is_space (rev (dropWhile is_space s)))"

text \<open>
  \<open>s.split('\n', 1)\<close>: the first line, and the rest when there is a line break. The result
  always has a first element, so \<open>section[0]\<close> exists and \<open>len(section) > 1\<close> is the presence
  of the rest.
\<close>

definition split_first_line :: "string \<Rightarrow> string \<times> string option" where
  "split_first_line s =
     (if CHR 0x0A \<in> set s
      then (takeWhile (\<lambda>c. c \<noteq> CHR 0x0A) s, Some (tl (dropWhile (\<lambda>c. c \<noteq> CHR 0x0A) s)))
      else (s, None))"

text \<open>\<open>"%s" % n\<close> for a line number.\<close>

function show_nat :: "nat \<Rightarrow> string" where
  "show_nat n =
     (if n < 10 then [''0123456789'' ! n]
      else show_nat (n div 10) @ [''0123456789'' ! (n mod 10)])"
  by pat_completeness auto
termination
  by (relation "measure id") auto

text \<open>\<open>"%20s" % key\<close>: right-justified in twenty columns.\<close>

definition rjust :: "nat \<Rightarrow> string \<Rightarrow> string" where
  "rjust width s = replicate (width - length s) CHR '' '' @ s"

text \<open>\<open>for x in v\<close>: the items of an iterable value, \<open>TypeError\<close> otherwise.\<close>

fun py_iter :: "pyval \<Rightarrow> error + pyval list" where
  "py_iter (PList xs) = Inr xs"
| "py_iter (PTuple xs) = Inr xs"
| "py_iter (PStr s) = Inr (map (\<lambda>c. PStr [c]) s)"
| "py_iter (PDict kvs) = Inr (map (\<lambda>kv. PStr (fst kv)) kvs)"
| "py_iter v = Inl (TypeError ''not iterable'')"

definition is_substring :: "string \<Rightarrow> string \<Rightarrow> bool" where
  "is_substring t s = list_ex (\<lambda>i. startswith (drop i s) t) [0 ..< Suc (length s)]"

text \<open>\<open>v in c\<close>.\<close>

fun py_contains :: "pyval \<Rightarrow> pyval \<Rightarrow> error + bool" where
  "py_contains (PList xs) v = Inr (v \<in> set xs)"
| "py_contains (PTuple xs) v = Inr (v \<in> set xs)"
| "py_contains (PStr s) (PStr t) = Inr (is_substring t s)"
| "py_contains (PStr s) v = Inl (TypeError ''in <string>'')"
| "py_contains (PDict kvs) v = Inr (v \<in> set (map (\<lambda>kv. PStr (fst kv)) kvs))"
| "py_contains c v = Inl (TypeError ''not a container'')"

subsection \<open>The world of the handlers: the clock, the network and the throttle tables\<close>

text \<open>
  Time is \<open>datetime.utcnow()\<close> in microseconds; \<open>timedelta(minutes=5)\<close> is \<open>five_minutes\<close>.
  The environment says what the \<open>n\<close>-th reading of the clock returns and whether the
  \<open>n\<close>-th call of \<open>requests.post\<close> raises. The world counts the clock readings, keeps the
  posts attempted, in order, and holds the two module-level dictionaries
  \<^verbatim>\<open>
  error_throttle_timestamp_sms = {}
  error_throttle_timestamp_slack = {}
  \<close>
\<close>

definition five_minutes :: int where
  "five_minutes = 5 * 60 * 1000000"

datatype url = ExotelUrl pyval | TwilioUrl pyval | WebhookUrl pyval

record http_post =
  post_url :: url
  post_auth :: "(pyval \<times> pyval) option"
  post_payload :: "(string \<times> pyval) list"

record log_env =
  utcnow :: "nat \<Rightarrow> int"
  post_raises :: "nat \<Rightarrow> http_post \<Rightarrow> error option"

record log_world =
  clock_reads :: nat
  http_posts :: "http_post list"
  error_throttle_timestamp_sms :: "string \<times> int \<Rightarrow> int option"
  error_throttle_timestamp_slack :: "string \<times> int \<Rightarrow> int option"

definition read_clock :: "log_env \<Rightarrow> log_world \<Rightarrow> int \<times> log_world" where
  "read_clock env w = (utcnow env (clock_reads w), w\<lparr>clock_reads := Suc (clock_reads w)\<rparr>)"

definition requests_post :: "log_env \<Rightarrow> http_post \<Rightarrow> log_world \<Rightarrow> log_world \<times> (error + unit)" where
  "requests_post env rq w =
     (w\<lparr>http_posts := http_posts w @ [rq]\<rparr>,
      case post_raises env (length (http_posts w)) rq of
        None \<Rightarrow> Inr ()
      | Some e \<Rightarrow> Inl e)"

text \<open>
  A \<open>logging.LogRecord\<close> as the handlers read it. \<open>message\<close> exists once a formatter has
  formatted the record; \<open>exc_text\<close> may be \<open>None\<close>; \<open>rec_exc_info\<close> is \<open>None\<close> for a falsy
  \<open>exc_info\<close> and otherwise what \<open>repr(record.exc_info[1])\<close> returns or raises.
\<close>

record log_record =
  rec_module :: string
  rec_lineno :: int
  rec_levelname :: string
  rec_message :: "string option"
  rec_exc_text :: "string option"
  rec_exc_info :: "(error + string) option"

text \<open>
  The test both \<open>emit\<close> methods start with:
  \<^verbatim>\<open>
        if throttle_key not in error_throttle_timestamp_sms or (
                (datetime.utcnow() - error_throttle_timestamp_sms[throttle_key]) > timedelta(minutes=5)):
  \<close>
  The clock is read only when the key is in the table.
\<close>

definition throttle_open ::
  "log_env \<Rightarrow> (string \<times> int \<Rightarrow> int option) \<Rightarrow> string \<times> int \<Rightarrow> log_world \<Rightarrow> bool \<times> log_world" where
  "throttle_open env stamps throttle_key w =
     (case stamps throttle_key of
        None \<Rightarrow> (True, w)
      | Some stamp \<Rightarrow>
          (case read_clock env w of (now, w') \<Rightarrow> (now - stamp > five_minutes, w')))"

text \<open>\<open>repr(record.exc_info[1]) if record.exc_info else ''\<close>.\<close>

definition exc_info_repr :: "log_record \<Rightarrow> error + string" where
  "exc_info_repr r = (case rec_exc_info r of None \<Rightarrow> Inr '''' | Some outcome \<Rightarrow> outcome)"

subsection \<open>\<open>SMSHandler\<close>\<close>

record sms_handler =
  sms_app_name :: string
  exotel_sid :: pyval
  exotel_token :: pyval
  exotel_from :: pyval
  twilio_sid :: pyval
  twilio_token :: pyval
  twilio_from :: pyval
  phonenumbers :: pyval

text \<open>
  \<^verbatim>\<open>
    def sendsms(self, number, message):
        try:
            if number.startswith('+91'):  # Indian
                requests.post('https://twilix.exotel.in/v1/Accounts/{sid}/Sms/send.json'.format(sid=self.exotel_sid),
                    auth=(self.exotel_sid, self.exotel_token),
                    data={'From': self.exotel_from, 'To': number, 'Body': message})
            else:
                requests.post('https://api.twilio.com/2010-04-01/Accounts/{sid}/Messages.json'.format(sid=self.twilio_sid),
                    auth=(self.twilio_sid, self.twilio_token),
                    data={'From': self.twilio_from, 'To': number, 'Body': message})
        except:  # NOQA
            pass
  \<close>
  \<open>sendsms_try\<close> is the body of the \<open>try\<close>; a number that is no string has no \<open>startswith\<close>.
\<close>

definition sendsms_try ::
  "log_env \<Rightarrow> sms_handler \<Rightarrow> pyval \<Rightarrow> string \<Rightarrow> log_world \<Rightarrow> log_world \<times> (error + unit)" where
  "sendsms_try env self number message w =
     (case number of
        PStr n \<Rightarrow>
          if startswith n ''+91''
          then requests_post env
                 \<lparr>post_url = ExotelUrl (exotel_sid self),
                  post_auth = Some (exotel_sid self, exotel_token self),
                  post_payload = [(''From'', exotel_from self), (''To'', number), (''Body'', PStr message)]\<rparr> w
          else requests_post env
                 \<lparr>post_url = TwilioUrl (twilio_sid self),
                  post_auth = Some (twilio_sid self, twilio_token self),
                  post_payload = [(''From'', twilio_from self), (''To'', number), (''Body'', PStr message)]\<rparr> w
      | _ \<Rightarrow> (w, Inl (AttributeError ''startswith'')))"

definition sendsms ::
  "log_env \<Rightarrow> sms_handler \<Rightarrow> pyval \<Rightarrow> string \<Rightarrow> log_world \<Rightarrow> log_world \<times> (error + unit)" where
  "sendsms env self number message w =
     (case sendsms_try env self number message w of
        (w', Inr u) \<Rightarrow> (w', Inr ())
      | (w', Inl e) \<Rightarrow> (w', Inr ()))"

text \<open>
  \<^verbatim>\<open>
    def emit(self, record):
        throttle_key = (record.module, record.lineno)
        if throttle_key not in error_throttle_timestamp_sms or (...):
            msg = u"{message}: {info}".format(
                message=record.message,
                info=repr(record.exc_info[1]) if record.exc_info else '')
            for phonenumber in self.phonenumbers:
                self.sendsms(phonenumber,
                    u"Error in {name}. {msg}. Please check your email for details".format(
                        name=self.app_name, msg=msg))
            error_throttle_timestamp_sms[throttle_key] = datetime.utcnow()
  \<close>
\<close>

fun sendsms_all ::
  "log_env \<Rightarrow> sms_handler \<Rightarrow> string \<Rightarrow> pyval list \<Rightarrow> log_world \<Rightarrow> log_world \<times> (error + unit)" where
  "sendsms_all env self text [] w = (w, Inr ())"
| "sendsms_all env self text (phonenumber # rest) w =
     (case sendsms env self phonenumber text w of
        (w', Inl e) \<Rightarrow> (w', Inl e)
      | (w', Inr u) \<Rightarrow> sendsms_all env self text rest w')"

definition SMSHandler_emit ::
  "log_env \<Rightarrow> sms_handler \<Rightarrow> log_record \<Rightarrow> log_world \<Rightarrow> log_world \<times> (error + unit)" where
  "SMSHandler_emit env self r w =
     (let throttle_key = (rec_module r, rec_lineno r) in
      case throttle_open env (error_throttle_timestamp_sms w) throttle_key w of
        (False, w1) \<Rightarrow> (w1, Inr ())
      | (True, w1) \<Rightarrow>
          (case rec_message r of
             None \<Rightarrow> (w1, Inl (AttributeError ''message''))
           | Some message \<Rightarrow>
               (case exc_info_repr r of
                  Inl e \<Rightarrow> (w1, Inl e)
                | Inr info \<Rightarrow>
                    (let msg = message @ '': '' @ info;
                         text = ''Error in '' @ sms_app_name self @ ''. '' @ msg
                                  @ ''. Please check your email for details''
                     in case py_iter (phonenumbers self) of
                          Inl e \<Rightarrow> (w1, Inl e)
                        | Inr numbers \<Rightarrow>
                            (case sendsms_all env self text numbers w1 of
                               (w2, Inl e) \<Rightarrow> (w2, Inl e)
                             | (w2, Inr u) \<Rightarrow>
                                 (case read_clock env w2 of
                                    (now, w3) \<Rightarrow>
                                      (w3\<lparr>error_throttle_timestamp_sms :=
                                            (error_throttle_timestamp_sms w3)(throttle_key \<mapsto> now)\<rparr>,
                                       Inr ())))))))"

subsection \<open>\<open>SlackHandler\<close>\<close>

record slack_handler =
  slack_app_name :: string
  webhooks :: pyval

text \<open>\<open>webhook.get(key)\<close>, \<open>webhook.get('levelnames', [])\<close>; only a dictionary has \<open>get\<close>.\<close>

definition webhook_get :: "pyval \<Rightarrow> string \<Rightarrow> pyval option" where
  "webhook_get webhook key = (case webhook of PDict kvs \<Rightarrow> map_of kvs key | _ \<Rightarrow> None)"

definition webhook_levelnames :: "pyval \<Rightarrow> error + pyval" where
  "webhook_levelnames webhook =
     (case webhook of
        PDict kvs \<Rightarrow> Inr (case map_of kvs ''levelnames'' of None \<Rightarrow> PList [] | Some v \<Rightarrow> v)
      | _ \<Rightarrow> Inl (AttributeError ''get''))"

text \<open>\<open>[lname for webhook in self.webhooks for lname in webhook.get('levelnames', [])]\<close>.\<close>

fun all_levelnames :: "pyval list \<Rightarrow> error + pyval list" where
  "all_levelnames [] = Inr []"
| "all_levelnames (webhook # rest) =
     (case webhook_levelnames webhook of
        Inl e \<Rightarrow> Inl e
      | Inr names \<Rightarrow>
          (case py_iter names of
             Inl e \<Rightarrow> Inl e
           | Inr lnames \<Rightarrow>
               (case all_levelnames rest of
                  Inl e \<Rightarrow> Inl e
                | Inr others \<Rightarrow> Inr (lnames @ others))))"

text \<open>
  \<^verbatim>\<open>
            if record.exc_text:
                double_split = [s.split('----') for s in record.exc_text.split('----------')]
                flat_list = [item for sublist in double_split for item in sublist]
                sections = [s.strip().split('\n', 1) for s in flat_list]
            else:
                sections = []
  \<close>
\<close>

definition slack_sections :: "string option \<Rightarrow> (string \<times> string option) list" where
  "slack_sections exc_text =
     (case exc_text of
        None \<Rightarrow> []
      | Some t \<Rightarrow>
          if t = [] then []
          else map (\<lambda>s. split_first_line (strip s))
                   (concat (map (split_on ''----'') (split_on ''----------'' t))))"

text \<open>
  \<^verbatim>\<open>
            data = {
                'text': u"*{levelname}* in {name}: {message}: `{info}`".format(...),
                'attachments': [{
                    'mrkdwn_in': ['text'],
                    'fallback': section[0],
                    'pretext': section[0],
                    'text': ('```\n' + section[1] + '\n```') if len(section) > 1 else '',
                    } for section in sections]}
  \<close>
\<close>

definition slack_attachment :: "string \<times> string option \<Rightarrow> pyval" where
  "slack_attachment section =
     PDict [(''mrkdwn_in'', PList [PStr ''text'']),
            (''fallback'', PStr (fst section)),
            (''pretext'', PStr (fst section)),
            (''text'', PStr (case snd section of
                               Some rest \<Rightarrow> ''```'' @ NL @ rest @ NL @ ''```''
                             | None \<Rightarrow> ''''))]"

definition slack_data :: "slack_handler \<Rightarrow> log_record \<Rightarrow> string \<Rightarrow> string \<Rightarrow> (string \<times> pyval) list" where
  "slack_data self r message info =
     [(''text'', PStr (''*'' @ rec_levelname r @ ''* in '' @ slack_app_name self @ '': '' @ message
                       @ '': `'' @ info @ ''`'')),
      (''attachments'', PList (map slack_attachment (slack_sections (rec_exc_text r))))]"

text \<open>
  The loop over the webhooks, on the world:
  \<^verbatim>\<open>
            for webhook in self.webhooks:
                if record.levelname not in webhook.get('levelnames', []):
                    continue
                payload = dict(data)
                for attr in ('channel', 'username', 'icon_emoji'):
                    if attr in webhook:
                        payload[attr] = webhook[attr]
                try:
                    requests.post(webhook['url'], json=payload,
                        headers={'Content-Type': 'application/json'})
                except:  # NOQA
                    pass
                error_throttle_timestamp_slack[throttle_key] = datetime.utcnow()
  \<close>
  \<open>slack_post_try\<close> is the body of the \<open>try\<close> (a webhook without \<open>'url'\<close> raises \<open>KeyError\<close>
  there), \<open>slack_post\<close> the whole \<open>try\<close> statement.
\<close>

definition slack_payload :: "(string \<times> pyval) list \<Rightarrow> pyval \<Rightarrow> (string \<times> pyval) list" where
  "slack_payload data webhook =
     fold (\<lambda>attr payload.
             case webhook_get webhook attr of
               Some v \<Rightarrow> AList.update attr v payload
             | None \<Rightarrow> payload)
          [''channel'', ''username'', ''icon_emoji''] data"

definition slack_post_try ::
  "log_env \<Rightarrow> pyval \<Rightarrow> (string \<times> pyval) list \<Rightarrow> log_world \<Rightarrow> log_world \<times> (error + unit)" where
  "slack_post_try env webhook payload w =
     (case webhook_get webhook ''url'' of
        None \<Rightarrow> (w, Inl (KeyError ''url''))
      | Some u \<Rightarrow>
          requests_post env \<lparr>post_url = WebhookUrl u, post_auth = None, post_payload = payload\<rparr> w)"

definition slack_post ::
  "log_env \<Rightarrow> pyval \<Rightarrow> (string \<times> pyval) list \<Rightarrow> log_world \<Rightarrow> log_world \<times> (error + unit)" where
  "slack_post env webhook payload w =
     (case slack_post_try env webhook payload w of
        (w', Inr u) \<Rightarrow> (w', Inr ())
      | (w', Inl e) \<Rightarrow> (w', Inr ()))"

fun slack_webhooks_loop ::
  "log_env \<Rightarrow> string \<times> int \<Rightarrow> string \<Rightarrow> (string \<times> pyval) list \<Rightarrow> pyval list \<Rightarrow> log_world
     \<Rightarrow> log_world \<times> (error + unit)" where
  "slack_webhooks_loop env throttle_key levelname data [] w = (w, Inr ())"
| "slack_webhooks_loop env throttle_key levelname data (webhook # rest) w =
     (case webhook_levelnames webhook of
        Inl e \<Rightarrow> (w, Inl e)
      | Inr names \<Rightarrow>
          (case py_contains names (PStr levelname) of
             Inl e \<Rightarrow> (w, Inl e)
           | Inr False \<Rightarrow> slack_webhooks_loop env throttle_key levelname data rest w
           | Inr True \<Rightarrow>
               (case slack_post env webhook (slack_payload data webhook) w of
                  (w1, Inl e) \<Rightarrow> (w1, Inl e)
                | (w1, Inr u) \<Rightarrow>
                    (case read_clock env w1 of
                       (now, w2) \<Rightarrow>
                         slack_webhooks_loop env throttle_key levelname data rest
                           (w2\<lparr>error_throttle_timestamp_slack :=
                                 (error_throttle_timestamp_slack w2)(throttle_key \<mapsto> now)\<rparr>)))))"

text \<open>
  \<^verbatim>\<open>
    def emit(self, record):
        throttle_key = (record.module, record.lineno)
        if throttle_key not in error_throttle_timestamp_slack or (...):
            if record.levelname not in [lname for webhook in self.webhooks for lname in webhook.get('levelnames', [])]:
                return
            ...
  \<close>
\<close>

definition SlackHandler_emit ::
  "log_env \<Rightarrow> slack_handler \<Rightarrow> log_record \<Rightarrow> log_world \<Rightarrow> log_world \<times> (error + unit)" where
  "SlackHandler_emit env self r w =
     (let throttle_key = (rec_module r, rec_lineno r) in
      case throttle_open env (error_throttle_timestamp_slack w) throttle_key w of
        (False, w1) \<Rightarrow> (w1, Inr ())
      | (True, w1) \<Rightarrow>
          (case py_iter (webhooks self) of
             Inl e \<Rightarrow> (w1, Inl e)
           | Inr hooks \<Rightarrow>
               (case all_levelnames hooks of
                  Inl e \<Rightarrow> (w1, Inl e)
                | Inr lnames \<Rightarrow>
                    if PStr (rec_levelname r) \<notin> set lnames then (w1, Inr ())
                    else
                      (case rec_message r of
                         None \<Rightarrow> (w1, Inl (AttributeError ''message''))
                       | Some message \<Rightarrow>
                           (case exc_info_repr r of
                              Inl e \<Rightarrow> (w1, Inl e)
                            | Inr info \<Rightarrow>
                                slack_webhooks_loop env throttle_key (rec_levelname r)
                                  (slack_data self r message info) hooks w1)))))"

subsection \<open>The handlers over time\<close>

text \<open>
  The logging framework calls \<open>emit\<close> for one record after another, on handlers that share
  the two module-level tables. What an \<open>emit\<close> raises goes to the caller of the logger;
  the next record is handled in the world the call left behind.
\<close>

datatype emit_call = SMS_emit sms_handler log_record | Slack_emit slack_handler log_record

fun handle :: "log_env \<Rightarrow> emit_call \<Rightarrow> log_world \<Rightarrow> log_world \<times> (error + unit)" where
  "handle env (SMS_emit h r) w = SMSHandler_emit env h r w"
| "handle env (Slack_emit h r) w = SlackHandler_emit env h r w"

fun handle_all :: "log_env \<Rightarrow> emit_call list \<Rightarrow> log_world \<Rightarrow> log_world" where
  "handle_all env [] w = w"
| "handle_all env (c # cs) w = handle_all env cs (fst (handle env c w))"

subsection \<open>\<open>LocalVarFormatter.formatException\<close>\<close>

text \<open>
  A stack frame with the fields the formatter reads; a local variable is its name and what
  \<open>repr(value)\<close> returns or raises. A traceback is the chain of \<open>tb_next\<close>. \<open>exc_info\<close> is
  the tuple \<open>ei\<close>: what \<open>traceback.print_exception(ei[0], ei[1], ei[2], None, sio)\<close> writes,
  and \<open>ei[2]\<close>, which is \<open>None\<close> when the exception has no traceback.
  The Flask context is, for each of \<open>session\<close>, \<open>g\<close> and \<open>current_auth\<close>, \<open>None\<close> when the
  object is falsy, else what \<open>pprint\<close> writes for it or raises (\<open>vars(g)\<close> and
  \<open>vars(current_auth)\<close> are evaluated inside the \<open>try\<close>). For \<open>request\<close> there is one more
  outcome: the attributes of \<open>request\<close> are read into \<open>request_data\<close> before the \<open>try\<close>, so
  an exception raised by one of these reads is not caught; \<open>ctx_request\<close> is \<open>None\<close> for a
  falsy \<open>request\<close>, \<open>Some (Inl e)\<close> when reading an attribute raises \<open>e\<close>, and
  \<open>Some (Inr outcome)\<close> with what \<open>pprint\<close> writes for \<open>request_data\<close> or raises.
\<close>

datatype frame =
  Frame (co_name: string) (co_filename: string) (f_lineno: nat)
        (f_locals: "(string \<times> (error + string)) list") (f_back: "frame option")

datatype traceback =
  Traceback (tb_frame: frame) (tb_next: "traceback option")

record exc_info =
  ei_printed :: string
  ei_traceback :: "traceback option"

record flask_context =
  ctx_request :: "(error + (error + string)) option"
  ctx_session :: "(error + string) option"
  ctx_g :: "(error + string) option"
  ctx_current_auth :: "(error + string) option"

text \<open>
  \<^verbatim>\<open>
  def pprint_with_indent(value, outfile, indent=4):
      out = six.StringIO()
      pprint(value, out)
      lines = out.getvalue().split('\n')
      out.close()
      outfile.write('\n'.join([(' ' * indent) + l for l in lines]))
  \<close>
  The argument is what \<open>pprint\<close> wrote; the result is what is written to \<open>outfile\<close>.
\<close>

definition pprint_with_indent :: "string \<Rightarrow> string" where
  "pprint_with_indent pprinted = join NL (map (\<lambda>l. replicate 4 CHR '' '' @ l) (split_on NL pprinted))"

text \<open>\<open>print(x, file=sio)\<close> writes \<open>x\<close> and a line break.\<close>

definition println :: "string \<Rightarrow> string" where
  "println x = x @ NL"

definition error_while_printing :: string where
  "error_while_printing = ''<ERROR WHILE PRINTING VALUE>''"

text \<open>
  \<^verbatim>\<open>
        tb = ei[2]
        while True:
            if not tb.tb_next:
                break
            tb = tb.tb_next
        stack = []
        f = tb.tb_frame
        while f:
            stack.append(f)
            f = f.f_back
  \<close>
\<close>

fun last_traceback :: "traceback \<Rightarrow> traceback" where
  "last_traceback (Traceback f None) = Traceback f None"
| "last_traceback (Traceback f (Some tb)) = last_traceback tb"

fun frame_stack :: "frame \<Rightarrow> frame list" where
  "frame_stack (Frame name filename lineno locals None) = [Frame name filename lineno locals None]"
| "frame_stack (Frame name filename lineno locals (Some back)) =
     Frame name filename lineno locals (Some back) # frame_stack back"

text \<open>
  \<^verbatim>\<open>
            for key, value in list(frame.f_locals.items()):
                print("\t%20s = " % key, end=' ', file=sio)
                try:
                    print(repr(value), file=sio)
                except:  # NOQA
                    print("<ERROR WHILE PRINTING VALUE>", file=sio)
  \<close>
\<close>

definition print_local :: "string \<times> (error + string) \<Rightarrow> string" where
  "print_local kv =
     (TAB @ rjust 20 (fst kv) @ '' = '') @ '' ''
     @ (case snd kv of
          Inr repr_value \<Rightarrow> println repr_value
        | Inl e \<Rightarrow> println error_while_printing)"

text \<open>
  \<^verbatim>\<open>
        for frame in stack:
            print('\n----\n', file=sio)
            print("Frame %s in %s at line %s" % (frame.f_code.co_name,
                frame.f_code.co_filename,
                frame.f_lineno), file=sio)
            for key, value in list(frame.f_locals.items()):
                ...
  \<close>
\<close>

definition print_frame :: "frame \<Rightarrow> string" where
  "print_frame fr =
     println (NL @ ''----'' @ NL)
     @ println (''Frame '' @ co_name fr @ '' in '' @ co_filename fr @ '' at line '' @ show_nat (f_lineno fr))
     @ concat (map print_local (f_locals fr))"

text \<open>
  \<^verbatim>\<open>
        if request:
            print('\n----------\n', file=sio)
            print("Request context:", file=sio)
            request_data = {
                'form': request.form,
                ...
                'view_args': request.view_args
            }
            try:
                pprint_with_indent(request_data, sio)
            except:  # NOQA
                print("<ERROR WHILE PRINTING VALUE>", file=sio)
  \<close>
  and the same for \<open>session\<close>, \<open>vars(g)\<close> and \<open>vars(current_auth)\<close> under their titles, with
  the value an argument of \<open>pprint_with_indent\<close> inside the \<open>try\<close>. \<open>print_section\<close> is the
  text of one section once its value is at hand; \<open>request_data\<close> is the dictionary of the
  request section, or the exception that reading the request raised.
\<close>

definition print_section :: "string \<Rightarrow> (error + string) option \<Rightarrow> string" where
  "print_section title ctx =
     (case ctx of
        None \<Rightarrow> []
      | Some outcome \<Rightarrow>
          println (NL @ ''----------'' @ NL) @ println title
          @ (case outcome of
               Inr pprinted \<Rightarrow> pprint_with_indent pprinted
             | Inl e \<Rightarrow> println error_while_printing))"

definition request_data :: "(error + (error + string)) option \<Rightarrow> error + (error + string) option" where
  "request_data request =
     (case request of
        None \<Rightarrow> Inr None
      | Some (Inl e) \<Rightarrow> Inl e
      | Some (Inr outcome) \<Rightarrow> Inr (Some outcome))"

text \<open>
  \<^verbatim>\<open>
        s = sio.getvalue()
        sio.close()
        if s[-1:] == '\n':
            s = s[:-1]
        return s
  \<close>
\<close>

definition chop_newline :: "string \<Rightarrow> string" where
  "chop_newline s = (if s \<noteq> [] \<and> last s = CHR 0x0A then butlast s else s)"

definition formatException :: "flask_context \<Rightarrow> exc_info \<Rightarrow> error + string" where
  "formatException ctx ei =
     (case ei_traceback ei of
        None \<Rightarrow> Inl (AttributeError ''tb_next'')
      | Some tb \<Rightarrow>
          (let stack = frame_stack (tb_frame (last_traceback tb));
               sio = ei_printed ei
                     @ println (NL @ ''----------'' @ NL)
                     @ println ''Stack frames (most recent call first):''
                     @ concat (map print_frame stack)
           in case request_data (ctx_request ctx) of
                Inl e \<Rightarrow> Inl e
              | Inr request \<Rightarrow>
                  Inr (chop_newline
                         (sio
                          @ print_section ''Request context:'' request
                          @ print_section ''Session cookie contents:'' (ctx_session ctx)
                          @ print_section ''App context:'' (ctx_g ctx)
                          @ print_section ''Current auth:'' (ctx_current_auth ctx)))))"

subsection \<open>\<open>init_app\<close>\<close>

text \<open>
  A handler is the constructor call that made it. On \<open>app.logger\<close> it has the level set on
  it and whether the \<open>LocalVarFormatter\<close> was set on it.
\<close>

datatype log_level = NOTSET | WARNING | ERROR

datatype handler_class = Coaster_SMSHandler | Coaster_SlackHandler | Stdlib_class string

datatype log_handler =
    FileHandler pyval
  | SMSHandler sms_handler
  | SlackHandler slack_handler
  | SMTPHandler pyval pyval pyval string "(pyval \<times> pyval) option"

record attached_handler =
  att_handler :: log_handler
  att_level :: log_level
  att_formatter :: bool

text \<open>
  The Flask application as \<open>init_app\<close> reads and writes it: \<open>app.name\<close>, \<open>app.config\<close> and
  the handlers of \<open>app.logger\<close>. The state of \<open>init_app\<close> is the application and the
  attributes of the standard library module \<open>logging.handlers\<close>.
\<close>

record flask_app =
  app_name :: string
  app_config :: "(string \<times> pyval) list"
  app_logger_handlers :: "attached_handler list"

record logging_state =
  logging_handlers_module :: "string \<Rightarrow> handler_class option"
  application :: flask_app

text \<open>
  The two handler classes of the standard library that \<open>init_app\<close> instantiates can raise:
  \<open>logging.FileHandler\<close> opens the file (\<open>TypeError\<close> for a name that is no path, \<open>OSError\<close>
  when the file cannot be opened), \<open>logging.handlers.SMTPHandler\<close> unpacks a list or tuple
  given as mail host (\<open>ValueError\<close> unless it has two items). Their code is outside this
  repository and the first depends on the file system, so what a constructor call raises,
  if anything, is a parameter. The constructors of \<open>SMSHandler\<close> and \<open>SlackHandler\<close> are in
  \<open>logger.py\<close>: they call \<open>logging.Handler.__init__\<close> and store their arguments.
\<close>

record logging_env =
  constructor_raises :: "log_handler \<Rightarrow> error option"

text \<open>\<open>app.logger.addHandler(handler)\<close>.\<close>

definition addHandler :: "attached_handler \<Rightarrow> logging_state \<Rightarrow> logging_state" where
  "addHandler h st =
     st\<lparr>application :=
          (application st)\<lparr>app_logger_handlers := app_logger_handlers (application st) @ [h]\<rparr>\<rparr>"

text \<open>\<open>app.config.get(key)\<close> is \<open>map_of\<close>; \<open>if app.config.get(key):\<close> is \<open>config_truthy\<close>.\<close>

definition config_truthy :: "(string \<times> pyval) list \<Rightarrow> string \<Rightarrow> bool" where
  "config_truthy config key = (case map_of config key of None \<Rightarrow> False | Some v \<Rightarrow> truthy v)"

text \<open>\<open>app.config[key]\<close> for a key known to be present.\<close>

definition config_item :: "(string \<times> pyval) list \<Rightarrow> string \<Rightarrow> pyval" where
  "config_item config key = (case map_of config key of None \<Rightarrow> PNone | Some v \<Rightarrow> v)"

definition sms_keys :: "string list" where
  "sms_keys = [''SMS_EXOTEL_SID'', ''SMS_EXOTEL_TOKEN'', ''SMS_EXOTEL_FROM'',
               ''SMS_TWILIO_SID'', ''SMS_TWILIO_TOKEN'', ''SMS_TWILIO_FROM'']"

text \<open>
  \<^verbatim>\<open>
    error_log_file = app.config.get('LOGFILE', 'error.log')
    if error_log_file:  # Specify a falsy value in config to disable the log file
        file_handler = logging.FileHandler(error_log_file)
        file_handler.setFormatter(formatter)
        file_handler.setLevel(logging.WARNING)
        app.logger.addHandler(file_handler)
  \<close>
  An exception of the constructor ends \<open>init_app\<close>, before anything is attached.
\<close>

definition error_log_file :: "(string \<times> pyval) list \<Rightarrow> pyval" where
  "error_log_file config = (case map_of config ''LOGFILE'' of None \<Rightarrow> PStr ''error.log'' | Some v \<Rightarrow> v)"

definition init_app_file :: "logging_env \<Rightarrow> logging_state \<Rightarrow> logging_state \<times> (error + unit)" where
  "init_app_file env st =
     (let logfile = error_log_file (app_config (application st))
      in if truthy logfile
         then (case constructor_raises env (FileHandler logfile) of
                 Some e \<Rightarrow> (st, Inl e)
               | None \<Rightarrow>
                   (addHandler \<lparr>att_handler = FileHandler logfile, att_level = WARNING,
                                att_formatter = True\<rparr> st,
                    Inr ()))
         else (st, Inr ()))"

text \<open>
  \<^verbatim>\<open>
    if app.config.get('ADMIN_NUMBERS'):
        if all(key in app.config for key in ['SMS_EXOTEL_SID', ...]):
            logging.handlers.SMSHandler = SMSHandler
            sms_handler = logging.handlers.SMSHandler(app_name=app.name, ...)
            sms_handler.setLevel(logging.ERROR)
            app.logger.addHandler(sms_handler)
  \<close>
\<close>

definition init_app_sms :: "logging_state \<Rightarrow> logging_state" where
  "init_app_sms st =
     (let config = app_config (application st) in
      if config_truthy config ''ADMIN_NUMBERS''
      then
        (if list_all (\<lambda>key. map_of config key \<noteq> None) sms_keys
         then
           (let st1 = st\<lparr>logging_handlers_module :=
                           (logging_handlers_module st)(''SMSHandler'' \<mapsto> Coaster_SMSHandler)\<rparr>;
                sms = \<lparr>sms_app_name = app_name (application st),
                       exotel_sid = config_item config ''SMS_EXOTEL_SID'',
                       exotel_token = config_item config ''SMS_EXOTEL_TOKEN'',
                       exotel_from = config_item config ''SMS_EXOTEL_FROM'',
                       twilio_sid = config_item config ''SMS_TWILIO_SID'',
                       twilio_token = config_item config ''SMS_TWILIO_TOKEN'',
                       twilio_from = config_item config ''SMS_TWILIO_FROM'',
                       phonenumbers = config_item config ''ADMIN_NUMBERS''\<rparr>
            in addHandler \<lparr>att_handler = SMSHandler sms, att_level = ERROR, att_formatter = False\<rparr> st1)
         else st)
      else st)"

text \<open>
  \<^verbatim>\<open>
    if app.config.get('SLACK_LOGGING_WEBHOOKS'):
        logging.handlers.SlackHandler = SlackHandler
        slack_handler = logging.handlers.SlackHandler(
            app_name=app.name, webhooks=app.config['SLACK_LOGGING_WEBHOOKS'])
        slack_handler.setFormatter(formatter)
        slack_handler.setLevel(logging.NOTSET)
        app.logger.addHandler(slack_handler)
  \<close>
\<close>

definition init_app_slack :: "logging_state \<Rightarrow> logging_state" where
  "init_app_slack st =
     (let config = app_config (application st) in
      if config_truthy config ''SLACK_LOGGING_WEBHOOKS''
      then
        (let st1 = st\<lparr>logging_handlers_module :=
                        (logging_handlers_module st)(''SlackHandler'' \<mapsto> Coaster_SlackHandler)\<rparr>;
             slack = \<lparr>slack_app_name = app_name (application st),
                      webhooks = config_item config ''SLACK_LOGGING_WEBHOOKS''\<rparr>
         in addHandler \<lparr>att_handler = SlackHandler slack, att_level = NOTSET, att_formatter = True\<rparr> st1)
      else st)"

text \<open>
  \<^verbatim>\<open>
    if app.config.get('ADMINS'):
        mail_sender = app.config.get('MAIL_DEFAULT_SENDER') or app.config.get(
            'DEFAULT_MAIL_SENDER', 'logs@example.com')
        if isinstance(mail_sender, (list, tuple)):
            mail_sender = mail_sender[1]  # Get email from (name, email)
        if app.config.get('MAIL_USERNAME') and app.config.get('MAIL_PASSWORD'):
            credentials = (app.config['MAIL_USERNAME'], app.config['MAIL_PASSWORD'])
        else:
            credentials = None
        mail_handler = logging.handlers.SMTPHandler(app.config.get('MAIL_SERVER', 'localhost'),
            mail_sender, app.config['ADMINS'], '%s failure' % app.name, credentials=credentials)
        mail_handler.setFormatter(formatter)
        mail_handler.setLevel(logging.ERROR)
        app.logger.addHandler(mail_handler)
  \<close>
  \<open>mail_sender[1]\<close> raises \<open>IndexError\<close> on a sequence shorter than two. \<open>mail_handler\<close> is
  the constructor call.
\<close>

definition configured_mail_sender :: "(string \<times> pyval) list \<Rightarrow> pyval" where
  "configured_mail_sender config =
     (if config_truthy config ''MAIL_DEFAULT_SENDER'' then config_item config ''MAIL_DEFAULT_SENDER''
      else (case map_of config ''DEFAULT_MAIL_SENDER'' of
              None \<Rightarrow> PStr ''logs@example.com''
            | Some v \<Rightarrow> v))"

definition mail_sender_address :: "pyval \<Rightarrow> error + pyval" where
  "mail_sender_address mail_sender =
     (case mail_sender of
        PList xs \<Rightarrow> (if 1 < length xs then Inr (xs ! 1) else Inl IndexError)
      | PTuple xs \<Rightarrow> (if 1 < length xs then Inr (xs ! 1) else Inl IndexError)
      | _ \<Rightarrow> Inr mail_sender)"

definition mail_handler :: "flask_app \<Rightarrow> pyval \<Rightarrow> log_handler" where
  "mail_handler app mail_sender =
     (let config = app_config app;
          credentials =
            (if config_truthy config ''MAIL_USERNAME'' \<and> config_truthy config ''MAIL_PASSWORD''
             then Some (config_item config ''MAIL_USERNAME'', config_item config ''MAIL_PASSWORD'')
             else None);
          mail_server = (case map_of config ''MAIL_SERVER'' of
                           None \<Rightarrow> PStr ''localhost''
                         | Some v \<Rightarrow> v)
      in SMTPHandler mail_server mail_sender (config_item config ''ADMINS'')
           (app_name app @ '' failure'') credentials)"

definition init_app_mail :: "logging_env \<Rightarrow> logging_state \<Rightarrow> logging_state \<times> (error + unit)" where
  "init_app_mail env st =
     (if config_truthy (app_config (application st)) ''ADMINS''
      then
        (case mail_sender_address (configured_mail_sender (app_config (application st))) of
           Inl e \<Rightarrow> (st, Inl e)
         | Inr mail_sender \<Rightarrow>
             (case constructor_raises env (mail_handler (application st) mail_sender) of
                Some e \<Rightarrow> (st, Inl e)
              | None \<Rightarrow>
                  (addHandler
                     \<lparr>att_handler = mail_handler (application st) mail_sender,
                      att_level = ERROR, att_formatter = True\<rparr> st,
                   Inr ())))
      else (st, Inr ()))"

text \<open>\<open>init_app\<close>: the four steps in order; an exception ends it.\<close>

definition logger_init_app :: "logging_env \<Rightarrow> logging_state \<Rightarrow> logging_state \<times> (error + unit)" where
  "logger_init_app env st =
     (case init_app_file env st of
        (st1, Inl e) \<Rightarrow> (st1, Inl e)
      | (st1, Inr u) \<Rightarrow> init_app_mail env (init_app_slack (init_app_sms st1)))"

text \<open>
  The handlers the documentation of \<open>init_app\<close> promises, for comparison: which of the four
  kinds are attached, in order, each with its level.
\<close>

datatype handler_kind = FileKind | SMSKind | SlackKind | MailKind

fun kind_of :: "log_handler \<Rightarrow> handler_kind" where
  "kind_of (FileHandler name) = FileKind"
| "kind_of (SMSHandler sms) = SMSKind"
| "kind_of (SlackHandler slack) = SlackKind"
| "kind_of (SMTPHandler host sender admins subject credentials) = MailKind"

definition logfile_disabled :: "(string \<times> pyval) list \<Rightarrow> bool" where
  "logfile_disabled config = (case map_of config ''LOGFILE'' of None \<Rightarrow> False | Some v \<Rightarrow> \<not> truthy v)"




text \<open>
  What the constructors of the standard library must not do for the promise to hold:
  raise, \<open>FileHandler\<close> on the log file, \<open>SMTPHandler\<close> on the mail settings, which include
  a mail sender of the documented form ("an address or a tuple with name and address").
\<close>

definition file_handler_error :: "logging_env \<Rightarrow> (string \<times> pyval) list \<Rightarrow> error option" where
  "file_handler_error env config =
     (if truthy (error_log_file config)
      then constructor_raises env (FileHandler (error_log_file config))
      else None)"


text \<open>
  For comparison with \<open>formatException\<close>: the same stack in which every local variable
  whose \<open>repr\<close> raises prints as the text \<open><ERROR WHILE PRINTING VALUE>\<close> instead.
\<close>

definition swallow_repr :: "string \<times> (error + string) \<Rightarrow> string \<times> (error + string)" where
  "swallow_repr kv =
     (fst kv, case snd kv of Inl e \<Rightarrow> Inr error_while_printing | Inr repr_value \<Rightarrow> Inr repr_value)"

fun swallow_repr_frame :: "frame \<Rightarrow> frame" where
  "swallow_repr_frame (Frame name filename lineno locals None) =
     Frame name filename lineno (map swallow_repr locals) None"
| "swallow_repr_frame (Frame name filename lineno locals (Some back)) =
     Frame name filename lineno (map swallow_repr locals) (Some (swallow_repr_frame back))"


subsection \<open>An application, its handlers and a failing network\<close>

text \<open>
  A configuration with every option of \<open>init_app\<close>'s documentation set but \<open>LOGFILE\<close>, in
  an application with no handler yet; a network on which every \<open>requests.post\<close> raises; a
  clock that advances one minute with each reading; an error record with a traceback of
  two frames, one of whose local variables has a \<open>repr\<close> that raises.
\<close>

definition example_config :: "(string \<times> pyval) list" where
  "example_config =
     [(''ADMINS'', PList [PStr ''admin@example.com'']),
      (''MAIL_DEFAULT_SENDER'', PTuple [PStr ''Test App'', PStr ''test@example.com'']),
      (''SLACK_LOGGING_WEBHOOKS'',
         PList [PDict [(''levelnames'', PList [PStr ''WARNING'', PStr ''ERROR'', PStr ''CRITICAL'']),
                       (''url'', PStr ''https://hooks.slack.com/T0''),
                       (''channel'', PStr ''#alerts'')],
                PDict [(''levelnames'', PList [PStr ''CRITICAL'']),
                       (''url'', PStr ''https://hooks.slack.com/T1'')]]),
      (''ADMIN_NUMBERS'', PList [PStr ''+919845012345'', PStr ''+15551234567'']),
      (''SMS_EXOTEL_SID'', PStr ''exotel-sid''),
      (''SMS_EXOTEL_TOKEN'', PStr ''exotel-token''),
      (''SMS_EXOTEL_FROM'', PStr ''0801234567''),
      (''SMS_TWILIO_SID'', PStr ''twilio-sid''),
      (''SMS_TWILIO_TOKEN'', PStr ''twilio-token''),
      (''SMS_TWILIO_FROM'', PStr ''+15550000000'')]"

definition example_app :: flask_app where
  "example_app = \<lparr>app_name = ''testapp'', app_config = example_config, app_logger_handlers = []\<rparr>"

definition stdlib_logging :: logging_state where
  "stdlib_logging =
     \<lparr>logging_handlers_module =
        map_of [(''SMTPHandler'', Stdlib_class ''SMTPHandler''),
                (''RotatingFileHandler'', Stdlib_class ''RotatingFileHandler'')],
      application = example_app\<rparr>"

text \<open>
  The constructors of the standard library where every file named by a string can be
  opened: \<open>FileHandler\<close> raises \<open>TypeError\<close> for any other name, \<open>SMTPHandler\<close> raises
  \<open>ValueError\<close> for a list or tuple as mail host that has not two items.
\<close>

fun stdlib_constructor_raises :: "log_handler \<Rightarrow> error option" where
  "stdlib_constructor_raises (FileHandler (PStr name)) = None"
| "stdlib_constructor_raises (FileHandler v) =
     Some (TypeError ''expected str, bytes or os.PathLike object'')"
| "stdlib_constructor_raises (SMTPHandler (PList xs) sender admins subject credentials) =
     (if length xs = 2 then None else Some (RaisedException ''ValueError''))"
| "stdlib_constructor_raises (SMTPHandler (PTuple xs) sender admins subject credentials) =
     (if length xs = 2 then None else Some (RaisedException ''ValueError''))"
| "stdlib_constructor_raises h = None"

definition stdlib_constructors :: logging_env where
  "stdlib_constructors = \<lparr>constructor_raises = stdlib_constructor_raises\<rparr>"

text \<open>
  The same application with the number 5 as \<open>LOGFILE\<close>; an application without log file
  that mails through a mail host given as a tuple of one item; an application with an
  empty \<open>LOGFILE\<close> and nothing else.
\<close>

definition logfile_5 :: logging_state where
  "logfile_5 =
     stdlib_logging\<lparr>application := example_app\<lparr>app_config := (''LOGFILE'', PInt 5) # example_config\<rparr>\<rparr>"



definition example_sms :: sms_handler where
  "example_sms =
     \<lparr>sms_app_name = ''testapp'',
      exotel_sid = PStr ''exotel-sid'', exotel_token = PStr ''exotel-token'',
      exotel_from = PStr ''0801234567'',
      twilio_sid = PStr ''twilio-sid'', twilio_token = PStr ''twilio-token'',
      twilio_from = PStr ''+15550000000'',
      phonenumbers = PList [PStr ''+919845012345'', PStr ''+15551234567'']\<rparr>"

definition example_slack :: slack_handler where
  "example_slack =
     \<lparr>slack_app_name = ''testapp'',
      webhooks = config_item example_config ''SLACK_LOGGING_WEBHOOKS''\<rparr>"

definition failing_network :: log_env where
  "failing_network =
     \<lparr>utcnow = (\<lambda>n. 60000000 * int n),
      post_raises = (\<lambda>n rq. Some (RaisedException ''ConnectionError''))\<rparr>"

definition fresh_world :: log_world where
  "fresh_world =
     \<lparr>clock_reads = 0, http_posts = [],
      error_throttle_timestamp_sms = (\<lambda>k. None),
      error_throttle_timestamp_slack = (\<lambda>k. None)\<rparr>"

definition example_record :: log_record where
  "example_record =
     \<lparr>rec_module = ''views'', rec_lineno = 42, rec_levelname = ''ERROR'',
      rec_message = Some ''Boom'',
      rec_exc_text = None,
      rec_exc_info = Some (Inr ''ValueError()'')\<rparr>"

definition example_exc_info :: exc_info where
  "example_exc_info =
     \<lparr>ei_printed = ''ValueError'' @ NL,
      ei_traceback =
        Some (Traceback
                (Frame ''dispatch'' ''app.py'' 7 [] None)
                (Some (Traceback
                         (Frame ''view'' ''views.py'' 42
                            [(''x'', Inr ''1''), (''conn'', Inl (RaisedException ''repr''))]
                            (Some (Frame ''dispatch'' ''app.py'' 7 [] None)))
                         None)))\<rparr>"

definition no_context :: flask_context where
  "no_context = \<lparr>ctx_request = None, ctx_session = None, ctx_g = None, ctx_current_auth = None\<rparr>"

text \<open>The worlds after a first \<open>emit\<close> of the record on each handler.\<close>

definition after_sms_emit :: log_world where
  "after_sms_emit = fst (SMSHandler_emit failing_network example_sms example_record fresh_world)"

definition after_slack_emit :: log_world where
  "after_slack_emit = fst (SlackHandler_emit failing_network example_slack example_record fresh_world)"

section \<open>Properties\<close>

subsection \<open>String helpers\<close>

lemma startswith_slash: "startswith s ''/'' \<longleftrightarrow> (s \<noteq> [] \<and> hd s = CHR ''/'')"
  by (cases s) (simp_all add: startswith_def)

lemma endswith_slash: "endswith s ''/'' \<longleftrightarrow> (s \<noteq> [] \<and> last s = CHR ''/'')"
proof (cases s rule: rev_cases)
  case Nil
  then show ?thesis by (simp add: endswith_def)
next
  case (snoc ys y)
  then show ?thesis by (simp add: endswith_def)
qed

subsection \<open>C2: \<open>rulejoin\<close>\<close>

lemma rulejoin_doctests:
  "rulejoin ''/'' '''' = ''/''"
  "rulejoin ''/'' ''first'' = ''/first''"
  "rulejoin ''/first'' ''/second'' = ''/second''"
  "rulejoin ''/first'' ''second'' = ''/first/second''"
  "rulejoin ''/first/'' ''second'' = ''/first/second''"
  "rulejoin ''/first/<second>'' '''' = ''/first/<second>''"
  by (simp_all add: rulejoin_def startswith_def endswith_def)

text \<open>
  Claim C2. For all strings \<open>class_rule\<close> and \<open>method_rule\<close>, \<open>rulejoin\<close> returns
  \<open>method_rule\<close> when \<open>method_rule\<close> begins with \<open>/\<close>; otherwise it returns
  \<open>class_rule\<close> followed directly by \<open>method_rule\<close> when \<open>class_rule\<close> ends with \<open>/\<close>
  or \<open>method_rule\<close> is empty, and \<open>class_rule\<close>, then \<open>/\<close>, then \<open>method_rule\<close> in every
  other case. "Begins with" and "ends with" are stated on the first and the last character.
\<close>

theorem rulejoin_spec:
  "rulejoin class_rule method_rule =
     (if method_rule \<noteq> [] \<and> hd method_rule = CHR ''/'' then method_rule
      else if (class_rule \<noteq> [] \<and> last class_rule = CHR ''/'') \<or> method_rule = []
           then class_rule @ method_rule
      else class_rule @ ''/'' @ method_rule)"
  by (simp add: rulejoin_def startswith_slash endswith_slash)

theorem rulejoin_spec_witness:
  "rulejoin ''/first'' ''/second'' = ''/second''
   \<and> rulejoin ''/first/'' ''second'' = ''/first/second''
   \<and> rulejoin ''/first/<second>'' '''' = ''/first/<second>''
   \<and> rulejoin ''/first'' ''second'' = ''/first/second''"
  using rulejoin_spec [of "''/first''" "''/second''"]
        rulejoin_spec [of "''/first/''" "''second''"]
        rulejoin_spec [of "''/first/<second>''" "''''"]
        rulejoin_spec [of "''/first''" "''second''"]
  by simp

subsection \<open>C1: \<open>ClassView.init_app\<close> and the method-resolution order\<close>

lemma init_app_items_select:
  "init_app_items cls cb items (P, ap) =
     (P \<union> fst ` set items, register_all cls cb (select_views P items) ap)"
proof (induction items arbitrary: P ap)
  case Nil
  show ?case by (simp add: register_all_def)
next
  case (Cons x items)
  obtain n a where x: "x = (n, a)" by (cases x)
  show ?case
    by (cases a) (auto simp: x Cons.IH register_all_def insert_absorb)
qed

lemma select_views_append:
  "select_views P (xs @ ys) = select_views P xs @ select_views (P \<union> fst ` set xs) ys"
proof (induction xs arbitrary: P)
  case Nil
  show ?case by simp
next
  case (Cons x xs)
  obtain n a where x: "x = (n, a)" by (cases x)
  show ?case
    by (cases a) (auto simp: x Cons.IH insert_absorb)
qed

lemma register_all_append:
  "register_all cls cb (xs @ ys) ap = register_all cls cb ys (register_all cls cb xs ap)"
  by (simp add: register_all_def)

lemma init_app_mro_select:
  "fold (\<lambda>base. init_app_items cls cb (cls_dict base)) mro (P, ap) =
     (P \<union> fst ` set (concat (map cls_dict mro)),
      register_all cls cb (select_views P (concat (map cls_dict mro))) ap)"
proof (induction mro arbitrary: P ap)
  case Nil
  show ?case by (simp add: register_all_def)
next
  case (Cons base mro)
  show ?case
    by (simp add: init_app_items_select Cons.IH select_views_append register_all_append Un_assoc image_Un)
qed

lemma get_raw_attr_map_of:
  "get_raw_attr mro name =
     (case map_of (concat (map cls_dict mro)) name of
        Some a \<Rightarrow> Inr a | None \<Rightarrow> Inl (AttributeError name))"
  by (induction mro) (auto simp: map_of_append split: option.splits)

lemma view_entry_skip:
  "map (view_entry ((n, a) # xs)) (filter (\<lambda>m. m \<noteq> n \<and> m \<notin> P) ys)
     = map (view_entry xs) (filter (\<lambda>m. m \<noteq> n \<and> m \<notin> P) ys)"
  by (rule map_cong) (auto simp: view_entry_def)

lemma view_entry_head:
  "view_entry ((n, a) # xs) n = (case a of ViewDecoratorAttr vd \<Rightarrow> [(n, vd)] | _ \<Rightarrow> [])"
  by (simp add: view_entry_def)

lemma filter_known_member:
  "n \<in> P \<Longrightarrow> filter (\<lambda>m. m \<noteq> n \<and> m \<notin> P) ys = filter (\<lambda>m. m \<notin> P) ys"
  by (rule filter_cong) auto

lemma select_views_filter:
  "select_views P xs =
     concat (map (view_entry xs) (filter (\<lambda>n. n \<notin> P) (first_occurrences (map fst xs))))"
proof (induction xs arbitrary: P)
  case Nil
  show ?case by simp
next
  case (Cons x xs)
  obtain n a where x: "x = (n, a)" by (cases x)
  let ?rest = "first_occurrences (map fst xs)"
  have tail: "concat (map (view_entry ((n, a) # xs)) (filter (\<lambda>m. m \<noteq> n \<and> m \<notin> P) ?rest))
                = select_views (insert n P) xs"
    by (simp add: view_entry_skip Cons.IH)
  show ?case
  proof (cases "n \<in> P")
    case True
    then have "insert n P = P" by auto
    with tail True show ?thesis
      by (simp add: x)
  next
    case False
    with tail show ?thesis
      by (cases a) (simp_all add: x view_entry_head)
  qed
qed

lemma view_entry_get_raw_attr:
  "(case get_raw_attr mro name of
      Inr (ViewDecoratorAttr vd) \<Rightarrow> [(name, vd)]
    | _ \<Rightarrow> []) = view_entry (concat (map cls_dict mro)) name"
  by (simp add: get_raw_attr_map_of view_entry_def split: option.splits)

lemma registered_views_select:
  "registered_views mro = select_views {} (concat (map cls_dict mro))"
  by (simp add: registered_views_def mro_names_def select_views_filter
        view_entry_get_raw_attr map_concat comp_def)

lemma select_views_mem:
  "(n, vd) \<in> set (select_views P xs) \<longleftrightarrow> n \<notin> P \<and> map_of xs n = Some (ViewDecoratorAttr vd)"
proof (induction xs arbitrary: P n vd)
  case Nil
  show ?case by simp
next
  case (Cons x xs)
  obtain m a where x: "x = (m, a)" by (cases x)
  show ?case
    by (cases a) (auto simp: x Cons.IH)
qed

lemma select_views_names_outside: "fst ` set (select_views P xs) \<inter> P = {}"
  using select_views_mem [of _ _ P xs] by fastforce

lemma select_views_distinct: "distinct (map fst (select_views P xs))"
proof (induction xs arbitrary: P)
  case Nil
  show ?case by simp
next
  case (Cons x xs)
  obtain m a where x: "x = (m, a)" by (cases x)
  have "m \<notin> fst ` set (select_views (insert m P) xs)"
    using select_views_names_outside [of "insert m P" xs] by auto
  then show ?case
    by (cases a) (simp_all add: x Cons.IH)
qed

text \<open>
  Claim C1. \<open>ClassView.init_app\<close> walks the class's method-resolution order and registers
  each route-decorated view attribute exactly once per attribute name, taking the definition
  from the most-derived class that defines the name. The walk makes the calls
  \<open>attr.init_app(app, cls, callback)\<close> of \<open>registered_views\<close>, in that order; no name occurs
  twice among them; and a name is registered with a decorator exactly when that decorator is
  what \<open>__get_raw_attr\<close> finds for the name, the first definition along the MRO. So a
  subclass's definition of a name replaces the base class's, and a plain method (not a
  \<open>ViewDecorator\<close>) under that name removes the registration.
\<close>

theorem init_app_registers_mro_first:
  "ClassView_init_app cls callback ap =
     fold (\<lambda>(name, vd). ViewDecorator_init_app (vd\<lparr>vd_name := name\<rparr>) cls callback)
          (registered_views (cv_mro cls)) ap
   \<and> distinct (map fst (registered_views (cv_mro cls)))
   \<and> (\<forall>name vd. (name, vd) \<in> set (registered_views (cv_mro cls))
                  \<longleftrightarrow> get_raw_attr (cv_mro cls) name = Inr (ViewDecoratorAttr vd))"
  by (simp add: ClassView_init_app_def init_app_mro_select registered_views_select
        register_all_def select_views_distinct select_views_mem get_raw_attr_map_of
      split: option.splits)

lemma returns_name: "func_name (returns name text) = name"
  by (simp add: returns_def)

text \<open>The class bodies of the test suite give the dictionaries written above.\<close>

lemma SubView_decorators:
  "reroute \<lparr>vd_routes = route '''' [], vd_func = returns ''first'' ''first'', vd_name = ''first''\<rparr>
           (returns ''first'' ''rerouted-first'')
     = Inr \<lparr>vd_routes = route '''' [], vd_func = returns ''first'' ''rerouted-first'', vd_name = ''first''\<rparr>"
  "(case reroute \<lparr>vd_routes = route ''second'' [], vd_func = returns ''second'' ''second'',
                   vd_name = ''second''\<rparr> (returns ''second'' ''rerouted-second'') of
      Inl e \<Rightarrow> Inl e
    | Inr r \<Rightarrow> ViewDecorator_call (route ''2'' []) (ViewDecoratorAttr r))
     = Inr \<lparr>vd_routes = route ''2'' [] @ route ''second'' [],
            vd_func = returns ''second'' ''rerouted-second'', vd_name = ''second''\<rparr>"
  by (simp_all add: reroute_def returns_name)

lemma SubView_add_route_for:
  "(case add_route_for SubView_declared ''also_inherited'' ''/inherited'' [] of
      Inl e \<Rightarrow> Inl e
    | Inr c1 \<Rightarrow>
        (case add_route_for c1 ''also_inherited'' ''inherited2'' [] of
           Inl e \<Rightarrow> Inl e
         | Inr c2 \<Rightarrow> add_route_for c2 ''latent_route'' ''latent'' []))
     = Inr SubView"
  by (simp add: add_route_for_def SubView_def SubView_declared_def SubView_class_def
        SubView_body_def BaseView_class_def ClassView_class_def routed_def returns_name route_def)

lemma SubView_fields:
  "cv_name SubView = ''SubView''"
  "cv_routes SubView = [(''/subclasstest'', [])]"
  "cv_decorators SubView = []"
  by (simp_all add: SubView_def SubView_declared_def route_def)

lemma SubView_mro: "cv_mro SubView = [SubView_class, BaseView_class, ClassView_class]"
  by (simp add: SubView_def)

lemma add_route_for_missing:
  "add_route_for SubView ''this_method_does_not_exist'' ''/missing'' []
     = Inl (AttributeError ''this_method_does_not_exist'')"
  by (simp add: add_route_for_def SubView_mro SubView_class_def
        SubView_body_def BaseView_class_def ClassView_class_def)

lemma SubView_registered:
  "registered_views (cv_mro SubView)
     = [(''first'', \<lparr>vd_routes = [('''', [])], vd_func = returns ''first'' ''rerouted-first'',
                      vd_name = ''first''\<rparr>),
        (''second'', \<lparr>vd_routes = [(''2'', []), (''second'', [])],
                       vd_func = returns ''second'' ''rerouted-second'', vd_name = ''second''\<rparr>),
        (''also_inherited'',
           \<lparr>vd_routes = [(''inherited2'', []), (''/inherited'', []), (''also-inherited'', [])],
            vd_func = returns ''also_inherited'' ''also_inherited'', vd_name = ''also_inherited''\<rparr>),
        (''latent_route'', \<lparr>vd_routes = [(''latent'', [])],
                             vd_func = returns ''latent_route'' ''latent-route'',
                             vd_name = ''latent_route''\<rparr>),
        (''inherited'', \<lparr>vd_routes = [(''inherited'', [])],
                          vd_func = returns ''inherited'' ''inherited'', vd_name = ''inherited''\<rparr>)]"
  by (simp add: registered_views_def mro_names_def SubView_mro SubView_class_def
        SubView_body_def BaseView_class_def ClassView_class_def routed_def route_def returns_name)

lemma SubView_third:
  "get_raw_attr (cv_mro SubView) ''third'' = Inr (FunctionAttr (returns ''third'' ''removed-third''))"
  by (simp add: SubView_mro SubView_class_def SubView_body_def)

theorem init_app_registers_mro_first_witness:
  "map rule_summary (url_map (ClassView_init_app SubView None \<lparr>url_map = []\<rparr>))
     = [(''/subclasstest'', PStr ''SubView_first'', ''first''),
        (''/subclasstest/2'', PStr ''SubView_second'', ''second''),
        (''/subclasstest/second'', PStr ''SubView_second'', ''second''),
        (''/subclasstest/inherited2'', PStr ''SubView_also_inherited'', ''also_inherited''),
        (''/inherited'', PStr ''SubView_also_inherited'', ''also_inherited''),
        (''/subclasstest/also-inherited'', PStr ''SubView_also_inherited'', ''also_inherited''),
        (''/subclasstest/latent'', PStr ''SubView_latent_route'', ''latent_route''),
        (''/subclasstest/inherited'', PStr ''SubView_inherited'', ''inherited'')]
   \<and> distinct (map fst (registered_views (cv_mro SubView)))
   \<and> get_raw_attr (cv_mro SubView) ''third'' = Inr (FunctionAttr (returns ''third'' ''removed-third''))
   \<and> ''third'' \<notin> fst ` set (registered_views (cv_mro SubView))"
  using init_app_registers_mro_first [of SubView None "\<lparr>url_map = []\<rparr>"]
  by (simp add: SubView_registered SubView_third SubView_fields
        ViewDecorator_init_app_def view_func_of_def Let_def add_url_rule_def rule_summary_def
        dict_update_def dict_pop_def rulejoin_def startswith_def endswith_def)

subsection \<open>The loader's loops\<close>

lemma first_occurrences_set: "set (first_occurrences xs) = set xs"
  by (induction xs) auto

lemma first_occurrences_distinct: "distinct (first_occurrences xs)"
  by (induction xs) (auto simp: first_occurrences_set)

lemma first_occurrences_append:
  "first_occurrences (xs @ ys)
     = first_occurrences xs @ filter (\<lambda>y. y \<notin> set xs) (first_occurrences ys)"
proof (induction xs)
  case Nil
  show ?case by simp
next
  case (Cons x xs)
  have "filter (\<lambda>y. y \<noteq> x) (filter (\<lambda>y. y \<notin> set xs) zs)
          = filter (\<lambda>y. y \<notin> set (x # xs)) zs" for zs
    by (induction zs) auto
  then show ?case
    by (simp add: Cons.IH del: set_simps)
qed

lemma filter_member_absorb:
  "c \<in> J \<Longrightarrow> filter (\<lambda>x. x \<noteq> c \<and> x \<notin> J) ys = filter (\<lambda>x. x \<notin> J) ys"
  by (rule filter_cong) auto

lemma loader_walk_resolve:
  "loader_walk env path (source, q, J) =
     (case resolve_path env source path of
        Inl e \<Rightarrow> Inl e
      | Inr (target, classes) \<Rightarrow>
          Inr (target,
               q @ map Join (filter (\<lambda>c. c \<notin> J) (first_occurrences classes)),
               J \<union> set classes))"
proof (induction path arbitrary: source q J)
  case Nil
  show ?case by simp
next
  case (Cons subname rest)
  show ?case
  proof (cases "py_getattr env source subname")
    case None
    then show ?thesis by simp
  next
    case (Some a)
    show ?thesis
    proof (cases "\<exists>key arg. a = InstrumentedAttribute key (RelationshipProperty arg)")
      case True
      then obtain key arg where a: "a = InstrumentedAttribute key (RelationshipProperty arg)"
        by blast
      show ?thesis
      proof (cases "related_class arg \<in> J")
        case True
        then have "insert (related_class arg) J = J" by auto
        with True show ?thesis
          by (auto simp: Some a Cons.IH filter_member_absorb Let_def split: sum.splits)
      next
        case False
        then show ?thesis
          by (simp add: Some a Cons.IH Let_def split: sum.splits)
      qed
    next
      case False
      then show ?thesis
        by (cases a) (simp_all add: Some Cons.IH split: property.splits)
    qed
  qed
qed

lemma joins_of_simps [simp]:
  "joins_of [] = []"
  "joins_of (Join c # q) = c # joins_of q"
  "joins_of (Filter a v # q) = joins_of q"
  "joins_of (q @ q') = joins_of q @ joins_of q'"
  by (simp_all add: joins_of_def)

lemma joins_of_map_Join [simp]: "joins_of (map Join cs) = cs"
  by (induction cs) simp_all

lemma filters_of_simps [simp]:
  "filters_of [] = []"
  "filters_of (Join c # q) = filters_of q"
  "filters_of (Filter a v # q) = (a, v) # filters_of q"
  "filters_of (q @ q') = filters_of q @ filters_of q'"
  by (simp_all add: filters_of_def)

lemma filters_of_map_Join [simp]: "filters_of (map Join cs) = []"
  by (induction cs) simp_all

text \<open>One pass of the outer loop, as a relation between the states before and after.\<close>

lemma loader_loop_targets:
  "loader_loop env model filters (q, J) = Inr (q', J') \<Longrightarrow>
     \<exists>targets classes ops.
       filter_targets env model filters = Inr (targets, classes)
       \<and> q' = q @ ops
       \<and> filters_of ops = targets
       \<and> joins_of ops = filter (\<lambda>c. c \<notin> J) (first_occurrences classes)
       \<and> J' = J \<union> set classes"
proof (induction filters arbitrary: q J)
  case Nil
  then show ?case by simp
next
  case (Cons f filters)
  obtain name v where f: "f = (name, v)" by (cases f)
  from Cons.prems obtain target cs where
    ft: "filter_target env model name = Inr (target, cs)" and
    rest: "loader_loop env model filters
             (q @ map Join (filter (\<lambda>c. c \<notin> J) (first_occurrences cs)) @ [Filter target v],
              J \<union> set cs) = Inr (q', J')"
    by (auto simp: f filter_target_def loader_walk_resolve split: if_splits sum.splits option.splits)
  from Cons.IH [OF rest] obtain targets classes ops where
    ih: "filter_targets env model filters = Inr (targets, classes)"
        "q' = (q @ map Join (filter (\<lambda>c. c \<notin> J) (first_occurrences cs)) @ [Filter target v]) @ ops"
        "filters_of ops = targets"
        "joins_of ops = filter (\<lambda>c. c \<notin> J \<union> set cs) (first_occurrences classes)"
        "J' = J \<union> set cs \<union> set classes"
    by blast
  let ?ops = "map Join (filter (\<lambda>c. c \<notin> J) (first_occurrences cs)) @ [Filter target v] @ ops"
  have "filter_targets env model (f # filters) = Inr ((target, v) # targets, cs @ classes)"
    by (simp add: f ft ih(1))
  moreover have "q' = q @ ?ops" by (simp add: ih(2))
  moreover have "filters_of ?ops = (target, v) # targets" by (simp add: ih(3))
  moreover have "joins_of ?ops = filter (\<lambda>c. c \<notin> J) (first_occurrences (cs @ classes))"
    by (simp add: ih(4) first_occurrences_append conj_commute)
  moreover have "J' = J \<union> set (cs @ classes)" by (simp add: ih(5) Un_assoc)
  ultimately show ?case by blast
qed



subsection \<open>The filter dictionary\<close>

lemma filters_step_apply:
  "filters_step rmm (key, v) filters =
     (case map_of rmm key of Some a \<Rightarrow> AList.update a v filters | None \<Rightarrow> filters)"
  by (simp add: filters_step_def)



lemma filters_fold_distinct:
  "distinct (map fst acc) \<Longrightarrow> distinct (map fst (fold (filters_step rmm) kw acc))"
proof (induction kw arbitrary: acc)
  case Nil
  then show ?case by simp
next
  case (Cons x kw)
  obtain key v where x: "x = (key, v)" by (cases x)
  show ?case
    by (cases "map_of rmm key")
       (simp_all add: x Cons.IH Cons.prems filters_step_apply AList.distinct_update)
qed


lemma loader_filters_fold: "loader_filters rmm kw = fold (filters_step rmm) kw []"
  by (simp add: loader_filters_def filters_step_def)


lemma loader_filters_distinct: "distinct (map fst (loader_filters rmm kw))"
  by (simp add: loader_filters_fold filters_fold_distinct)


subsection \<open>The loader and the view call\<close>


lemma view_func_call_ModelView:
  assumes "cv_before_request (view_class vf) = BeforeRequest_ModelView"
    and "\<not> keyword_clash [''self'', ''_view''] kw"
  shows "view_func_call env vf args kw =
           (case call_loader env (view_class vf) (new_instance\<lparr>inst_kwargs := Some kw\<rparr>) of
              (queries, Inl e) \<Rightarrow> (queries, Inl e)
            | (queries, Inr r) \<Rightarrow>
                (queries,
                 call (wrapped_func vf) \<lparr>inst_kwargs = Some kw, inst_obj = Some r\<rparr> args kw))"
  using assms
  by (simp add: view_func_call_def before_request_def ModelView_before_request_def
        ClassView_before_request_def new_instance_def Let_def
      split: prod.splits sum.splits)


text \<open>
  Claim C4. Within one call of \<open>InstanceLoader.loader()\<close>, each related model class reached
  on the dotted filter paths is joined to the query at most once: after any number \<open>n\<close> of
  iterations of the loop over the filters, the joins the loop has added to the base query
  are pairwise distinct and are exactly the members of \<open>joined_models\<close>.
\<close>

theorem loader_joins_once:
  assumes "loader_loop env model (take n filters) (base, {}) = Inr (q, joined_models)"
  shows "distinct (joins_of (drop (length base) q))
       \<and> set (joins_of (drop (length base) q)) = joined_models
       \<and> take (length base) q = base"
proof -
  from loader_loop_targets [OF assms] obtain classes ops where
    "q = base @ ops" "joins_of ops = first_occurrences classes" "joined_models = set classes"
    by auto
  then show ?thesis
    by (simp add: first_occurrences_distinct first_occurrences_set)
qed

text \<open>
  Claim C10. If none of the request's URL rule variables is a key of \<open>route_model_map\<close>,
  \<open>InstanceLoader.loader\<close> runs no database query and returns \<open>None\<close>, so \<open>self.obj\<close> is
  \<open>None\<close> when the view handler runs.
\<close>

theorem loader_without_mapped_variable:
  assumes "cv_before_request cls = BeforeRequest_ModelView"
    and "cv_loader cls = Loader_InstanceLoader"
    and "view_class vf = cls"
    and "\<not> keyword_clash [''self'', ''_view''] kw"
    and "\<not> list_ex (\<lambda>name. map_of (cv_route_model_map cls) name \<noteq> None) (map fst kw)"
  shows "InstanceLoader_loader env cls (self\<lparr>inst_kwargs := Some kw\<rparr>) = ([], Inr PNone)
       \<and> view_func_call env vf args kw
            = ([], call (wrapped_func vf) \<lparr>inst_kwargs = Some kw, inst_obj = Some PNone\<rparr> args kw)"
proof -
  have loader: "InstanceLoader_loader env cls (s\<lparr>inst_kwargs := Some kw\<rparr>) = ([], Inr PNone)" for s
    using assms(5) by (simp add: InstanceLoader_loader_def)
  then show ?thesis
    using assms(1-4) by (simp add: view_func_call_ModelView call_loader_def)
qed

text \<open>
  Claim C9, as amended. On a \<open>ModelView\<close> subclass that keeps the \<open>__decorators__\<close> list
  \<open>ModelView\<close> defines and \<open>ModelView.before_request\<close>, a view handler invoked as a view
  receives no URL rule variable: \<open>before_request\<close> stores the keyword arguments at
  \<open>self.kwargs\<close> and the loader's result at \<open>self.obj\<close>, and the handler is then called
  with \<open>self\<close> alone. (The call fails before the handler when a URL variable is named
  \<open>self\<close> or \<open>_view\<close>, when the loader raises, or when positional arguments are passed.)
\<close>

theorem modelview_handler_gets_self_only:
  assumes "cv_decorators cls = ModelView_decorators"
    and "cv_before_request cls = BeforeRequest_ModelView"
  shows "view_func_call env (view_func_of vd cls) args kw =
           (if keyword_clash [''self'', ''_view''] kw then ([], Inl (TypeError ''before_request''))
            else
              (case call_loader env cls (new_instance\<lparr>inst_kwargs := Some kw\<rparr>) of
                 (queries, Inl e) \<Rightarrow> (queries, Inl e)
               | (queries, Inr r) \<Rightarrow>
                   (queries,
                    if args \<noteq> [] then Inl (TypeError ''inner'')
                    else call (vd_func vd) \<lparr>inst_kwargs = Some kw, inst_obj = Some r\<rparr> [] [])))"
proof (cases "keyword_clash [''self'', ''_view''] kw")
  case True
  then show ?thesis
    using assms
    by (simp add: view_func_call_def before_request_def ModelView_before_request_def view_func_of_def)
next
  case False
  then have "\<not> keyword_clash [''self''] kw"
    by (simp add: keyword_clash_def)
  with False assms show ?thesis
    by (simp add: view_func_call_ModelView view_func_of_def ModelView_decorators_def
          ClassView_decorators_def modelview_view_decorator_def
        split: prod.splits sum.splits)
qed

subsection \<open>The model views of the test suite, evaluated\<close>

lemmas test_suite_defs =
  test_env_def test_orm_attrs_def test_db_def ViewDocument_def ScopedViewDocument_def
  ViewDocument_name_def ViewDocument_title_def ScopedViewDocument_name_def
  ModelDocumentView_def ScopedDocumentView_def PlainDocumentView_def
  view_decorator_view_def view_obj_def view_kwargs_def route_def

lemmas view_call_defs =
  view_func_call_def view_func_of_def before_request_def ModelView_before_request_def
  ClassView_before_request_def call_loader_def InstanceLoader_loader_def ModelView_loader_def
  base_query_def loader_filters_def keyword_clash_def new_instance_def
  ModelView_decorators_def ClassView_decorators_def modelview_view_decorator_def Let_def

lemma split_sep_example: "split_sep CHR ''.'' ''parent.name'' = [''parent'', ''name'']"
  by simp

lemma scoped_view_found:
  "view_func_call test_env (view_func_of view_decorator_view ScopedDocumentView) []
     [(''parent'', PStr ''test1''), (''document'', PStr ''test2'')]
   = ([[Join ViewDocument, Filter ViewDocument_name (PStr ''test1''),
        Filter ScopedViewDocument_name (PStr ''test2'')]],
      Inr (PObject ''sdoc''))"
  by (simp add: view_call_defs test_suite_defs)

lemma scoped_view_not_found:
  "view_func_call test_env (view_func_of view_decorator_view ScopedDocumentView) []
     [(''parent'', PStr ''this-doc-does-not-exist''), (''document'', PStr ''test2'')]
   = ([[Join ViewDocument, Filter ViewDocument_name (PStr ''this-doc-does-not-exist''),
        Filter ScopedViewDocument_name (PStr ''test2'')]],
      Inl NotFound)"
  by (simp add: view_call_defs test_suite_defs)


theorem loader_joins_once_witness:
  "loader_loop test_env ScopedViewDocument
     (take 2 [(''parent.name'', PStr ''test1''), (''parent.title'', PStr ''Test 1''),
              (''name'', PStr ''test2'')])
     ([Filter ScopedViewDocument_name (PStr ''x'')], {})
   = Inr ([Filter ScopedViewDocument_name (PStr ''x''), Join ViewDocument,
           Filter ViewDocument_name (PStr ''test1''), Filter ViewDocument_title (PStr ''Test 1'')],
          {ViewDocument})
   \<and> distinct (joins_of (drop (length [Filter ScopedViewDocument_name (PStr ''x'')])
         [Filter ScopedViewDocument_name (PStr ''x''), Join ViewDocument,
          Filter ViewDocument_name (PStr ''test1''), Filter ViewDocument_title (PStr ''Test 1'')]))
   \<and> set (joins_of (drop (length [Filter ScopedViewDocument_name (PStr ''x'')])
         [Filter ScopedViewDocument_name (PStr ''x''), Join ViewDocument,
          Filter ViewDocument_name (PStr ''test1''), Filter ViewDocument_title (PStr ''Test 1'')]))
       = {ViewDocument}
   \<and> take (length [Filter ScopedViewDocument_name (PStr ''x'')])
         [Filter ScopedViewDocument_name (PStr ''x''), Join ViewDocument,
          Filter ViewDocument_name (PStr ''test1''), Filter ViewDocument_title (PStr ''Test 1'')]
       = [Filter ScopedViewDocument_name (PStr ''x'')]"
proof -
  have run:
    "loader_loop test_env ScopedViewDocument
       (take 2 [(''parent.name'', PStr ''test1''), (''parent.title'', PStr ''Test 1''),
                (''name'', PStr ''test2'')])
       ([Filter ScopedViewDocument_name (PStr ''x'')], {})
     = Inr ([Filter ScopedViewDocument_name (PStr ''x''), Join ViewDocument,
             Filter ViewDocument_name (PStr ''test1''), Filter ViewDocument_title (PStr ''Test 1'')],
            {ViewDocument})"
    by (simp add: test_suite_defs Let_def)
  from loader_joins_once [OF run] run show ?thesis by blast
qed

theorem loader_without_mapped_variable_witness:
  "InstanceLoader_loader test_env ModelDocumentView
     (new_instance\<lparr>inst_kwargs := Some [(''name'', PStr ''test1'')]\<rparr>) = ([], Inr PNone)
   \<and> view_func_call test_env (view_func_of view_decorator_view ModelDocumentView) []
        [(''name'', PStr ''test1'')]
      = ([], call (wrapped_func (view_func_of view_decorator_view ModelDocumentView))
               \<lparr>inst_kwargs = Some [(''name'', PStr ''test1'')], inst_obj = Some PNone\<rparr>
               [] [(''name'', PStr ''test1'')])"
proof (rule loader_without_mapped_variable)
  show "cv_before_request ModelDocumentView = BeforeRequest_ModelView"
    by (simp add: ModelDocumentView_def)
  show "cv_loader ModelDocumentView = Loader_InstanceLoader"
    by (simp add: ModelDocumentView_def)
  show "view_class (view_func_of view_decorator_view ModelDocumentView) = ModelDocumentView"
    by (simp add: view_func_of_def)
  show "\<not> keyword_clash [''self'', ''_view''] [(''name'', PStr ''test1'')]"
    by (simp add: keyword_clash_def)
  show "\<not> list_ex (\<lambda>name. map_of (cv_route_model_map ModelDocumentView) name \<noteq> None)
            (map fst [(''name'', PStr ''test1'')])"
    by (simp add: ModelDocumentView_def)
qed

lemma unmapped_view_sees_None:
  "view_func_call test_env (view_func_of view_decorator_view ModelDocumentView) []
     [(''name'', PStr ''test1'')] = ([], Inr PNone)"
  by (simp add: view_call_defs test_suite_defs)

theorem modelview_handler_gets_self_only_witness:
  "view_func_call test_env (view_func_of view_decorator_view ModelDocumentView) []
     [(''document'', PStr ''test1'')]
   = ([[Filter ViewDocument_name (PStr ''test1'')]], Inr (PObject ''doc''))"
proof -
  have "cv_decorators ModelDocumentView = ModelView_decorators"
    and "cv_before_request ModelDocumentView = BeforeRequest_ModelView"
    by (simp_all add: ModelDocumentView_def)
  from modelview_handler_gets_self_only [OF this, of test_env view_decorator_view "[]"
      "[(''document'', PStr ''test1'')]"]
  show ?thesis
    by (simp add: call_loader_def InstanceLoader_loader_def base_query_def loader_filters_def
          keyword_clash_def new_instance_def Let_def test_suite_defs)
qed

lemma PlainDocumentView_registered:
  "url_map (ClassView_init_app PlainDocumentView None \<lparr>url_map = []\<rparr>)
     = [(''/plain/<document>'', PStr ''PlainDocumentView_view'',
         view_func_of \<lparr>vd_routes = route '''' [], vd_func = view_kwargs, vd_name = ''view''\<rparr>
           PlainDocumentView,
         [])]"
proof -
  have fields: "cv_mro PlainDocumentView
                  = [\<lparr>cls_name = ''PlainDocumentView'',
                      cls_dict = [(''__decorators__'', ValueAttr (PList [])),
                                  (''view'', routed (route '''' []) view_kwargs)]\<rparr>,
                     ClassView_class]"
               "cv_routes PlainDocumentView = route ''/plain/<document>'' []"
               "cv_name PlainDocumentView = ''PlainDocumentView''"
    by (simp_all add: PlainDocumentView_def)
  show ?thesis
    by (simp add: ClassView_init_app_def ViewDecorator_init_app_def fields ClassView_class_def
          routed_def route_def rulejoin_def startswith_def endswith_def add_url_rule_def
          dict_update_def dict_pop_def Let_def)
qed

text \<open>
  Claim C9 as stated fails on \<open>PlainDocumentView\<close>, a \<open>ModelView\<close> subclass with
  \<open>InstanceLoader\<close> that replaces \<open>__decorators__\<close>: \<open>init_app\<close> registers one view function
  for it, and on a request for \<open>/plain/test1\<close> the loader runs and the handler is called with
  the URL variable \<open>document\<close> as a keyword argument.
\<close>

theorem modelview_handler_gets_kwargs_counterexample:
  "url_map (ClassView_init_app PlainDocumentView None \<lparr>url_map = []\<rparr>)
     = [(''/plain/<document>'', PStr ''PlainDocumentView_view'',
         view_func_of \<lparr>vd_routes = route '''' [], vd_func = view_kwargs, vd_name = ''view''\<rparr>
           PlainDocumentView,
         [])]
   \<and> view_func_call test_env
       (view_func_of \<lparr>vd_routes = route '''' [], vd_func = view_kwargs, vd_name = ''view''\<rparr>
          PlainDocumentView)
       [] [(''document'', PStr ''test1'')]
     = ([[Filter ViewDocument_name (PStr ''test1'')]], Inr (PDict [(''document'', PStr ''test1'')]))"
proof -
  have "view_func_call test_env
       (view_func_of \<lparr>vd_routes = route '''' [], vd_func = view_kwargs, vd_name = ''view''\<rparr>
          PlainDocumentView)
       [] [(''document'', PStr ''test1'')]
     = ([[Filter ViewDocument_name (PStr ''test1'')]], Inr (PDict [(''document'', PStr ''test1'')]))"
    by (simp add: view_call_defs test_suite_defs)
  with PlainDocumentView_registered show ?thesis
    by (rule conjI)
qed

section \<open>Properties of the logger\<close>

subsection \<open>The handlers and the network\<close>

lemma read_clock_posts [simp]:
  "http_posts (snd (read_clock env w)) = http_posts w"
  "error_throttle_timestamp_sms (snd (read_clock env w)) = error_throttle_timestamp_sms w"
  "error_throttle_timestamp_slack (snd (read_clock env w)) = error_throttle_timestamp_slack w"
  by (simp_all add: read_clock_def)

lemma read_clock_env [simp]: "read_clock (env\<lparr>post_raises := p\<rparr>) w = read_clock env w"
  by (simp add: read_clock_def)

lemma throttle_open_env [simp]:
  "throttle_open (env\<lparr>post_raises := p\<rparr>) stamps k w = throttle_open env stamps k w"
  by (simp add: throttle_open_def split: option.splits)


lemma requests_post_world:
  "fst (requests_post (env\<lparr>post_raises := p\<rparr>) rq w) = fst (requests_post env rq w)"
  by (simp add: requests_post_def)

lemma sendsms_returns: "snd (sendsms env self number message w) = Inr ()"
  by (simp add: sendsms_def split: prod.splits sum.splits)

lemma sendsms_all_returns: "snd (sendsms_all env self msg numbers w) = Inr ()"
proof (induction numbers arbitrary: w)
  case Nil
  show ?case by simp
next
  case (Cons number rest)
  obtain w' where "sendsms env self number msg w = (w', Inr ())"
    using sendsms_returns [of env self number msg w]
    by (cases "sendsms env self number msg w") simp
  with Cons.IH [of w'] show ?case by simp
qed


lemma slack_post_returns: "snd (slack_post env webhook payload w) = Inr ()"
  by (simp add: slack_post_def split: prod.splits sum.splits)









subsection \<open>\<open>formatException\<close>\<close>

lemma print_local_swallow:
  "print_local (key, Inl e) = print_local (key, Inr error_while_printing)"
  by (simp add: print_local_def)

lemma swallow_repr_frame_fields [simp]:
  "co_name (swallow_repr_frame fr) = co_name fr"
  "co_filename (swallow_repr_frame fr) = co_filename fr"
  "f_lineno (swallow_repr_frame fr) = f_lineno fr"
  "f_locals (swallow_repr_frame fr) = map swallow_repr (f_locals fr)"
  by (induction fr rule: swallow_repr_frame.induct) simp_all








lemma formatException_raises_request_error:
  "ei_traceback ei = Some tb \<Longrightarrow> ctx_request ctx = Some (Inl e) \<Longrightarrow> formatException ctx ei = Inl e"
  by (simp add: formatException_def request_data_def Let_def)














subsection \<open>C8: throttling\<close>

lemma throttle_open_world:
  assumes "throttle_open env stamps k w = (opened, w1)"
  shows "http_posts w1 = http_posts w"
    and "error_throttle_timestamp_sms w1 = error_throttle_timestamp_sms w"
    and "error_throttle_timestamp_slack w1 = error_throttle_timestamp_slack w"
    and "clock_reads w \<le> clock_reads w1"
  using assms by (auto simp: throttle_open_def read_clock_def split: option.splits)

lemma sendsms_world:
  assumes "sendsms env self number msg w = (w', res)"
  shows "clock_reads w' = clock_reads w"
    and "error_throttle_timestamp_sms w' = error_throttle_timestamp_sms w"
    and "error_throttle_timestamp_slack w' = error_throttle_timestamp_slack w"
  using assms
  by (auto simp: sendsms_def sendsms_try_def requests_post_def
           split: pyval.splits if_splits prod.splits sum.splits option.splits)

lemma sendsms_all_world:
  assumes "sendsms_all env self msg numbers w = (w', res)"
  shows "clock_reads w' = clock_reads w
       \<and> error_throttle_timestamp_sms w' = error_throttle_timestamp_sms w
       \<and> error_throttle_timestamp_slack w' = error_throttle_timestamp_slack w"
  using assms
proof (induction numbers arbitrary: w)
  case Nil
  then show ?case by simp
next
  case (Cons number rest)
  obtain w1 where one: "sendsms env self number msg w = (w1, Inr ())"
    using sendsms_returns [of env self number msg w]
    by (cases "sendsms env self number msg w") simp
  with Cons.prems have "sendsms_all env self msg rest w1 = (w', res)" by simp
  from Cons.IH [OF this] sendsms_world [OF one] show ?case by simp
qed

lemma slack_post_world:
  assumes "slack_post env webhook payload w = (w', res)"
  shows "clock_reads w' = clock_reads w"
    and "error_throttle_timestamp_sms w' = error_throttle_timestamp_sms w"
    and "error_throttle_timestamp_slack w' = error_throttle_timestamp_slack w"
  using assms
  by (auto simp: slack_post_def slack_post_try_def requests_post_def
           split: if_splits prod.splits sum.splits option.splits)

lemma SMSHandler_emit_world:
  "(\<exists>opened w1. throttle_open env (error_throttle_timestamp_sms w) (rec_module r, rec_lineno r) w
                    = (opened, w1)
                  \<and> fst (SMSHandler_emit env h r w) = w1)
   \<or> (\<exists>w1 w2. throttle_open env (error_throttle_timestamp_sms w) (rec_module r, rec_lineno r) w
                  = (True, w1)
                \<and> clock_reads w2 = clock_reads w1
                \<and> error_throttle_timestamp_sms w2 = error_throttle_timestamp_sms w1
                \<and> error_throttle_timestamp_slack w2 = error_throttle_timestamp_slack w1
                \<and> fst (SMSHandler_emit env h r w)
                    = w2\<lparr>clock_reads := Suc (clock_reads w2),
                         error_throttle_timestamp_sms :=
                           (error_throttle_timestamp_sms w2)
                             ((rec_module r, rec_lineno r) \<mapsto> utcnow env (clock_reads w2))\<rparr>)"
proof -
  obtain opened w1 where
    t: "throttle_open env (error_throttle_timestamp_sms w) (rec_module r, rec_lineno r) w = (opened, w1)"
    by (cases "throttle_open env (error_throttle_timestamp_sms w) (rec_module r, rec_lineno r) w")
  show ?thesis
  proof (cases "opened \<and> (\<exists>message info numbers. rec_message r = Some message
                   \<and> exc_info_repr r = Inr info \<and> py_iter (phonenumbers h) = Inr numbers)")
    case True
    then obtain message info numbers where
      sent: "opened" "rec_message r = Some message" "exc_info_repr r = Inr info"
            "py_iter (phonenumbers h) = Inr numbers"
      by blast
    let ?msg = "''Error in '' @ sms_app_name h @ ''. '' @ (message @ '': '' @ info)
                   @ ''. Please check your email for details''"
    obtain w2 where all: "sendsms_all env h ?msg numbers w1 = (w2, Inr ())"
      using sendsms_all_returns [of env h ?msg numbers w1]
      by (cases "sendsms_all env h ?msg numbers w1") simp
    have emit: "fst (SMSHandler_emit env h r w)
                  = w2\<lparr>clock_reads := Suc (clock_reads w2),
                       error_throttle_timestamp_sms :=
                         (error_throttle_timestamp_sms w2)
                           ((rec_module r, rec_lineno r) \<mapsto> utcnow env (clock_reads w2))\<rparr>"
      using t sent all by (simp add: SMSHandler_emit_def Let_def read_clock_def)
    from sendsms_all_world [OF all] t sent(1) emit show ?thesis
      by (intro disjI2 exI [of _ w1] exI [of _ w2]) simp
  next
    case False
    with t have "fst (SMSHandler_emit env h r w) = w1"
      by (auto simp: SMSHandler_emit_def Let_def split: bool.splits option.splits sum.splits)
    with t show ?thesis by blast
  qed
qed

lemma SMSHandler_emit_frame:
  "error_throttle_timestamp_slack (fst (SMSHandler_emit env h r w)) = error_throttle_timestamp_slack w"
  "clock_reads w \<le> clock_reads (fst (SMSHandler_emit env h r w))"
  "k \<noteq> (rec_module r, rec_lineno r)
     \<Longrightarrow> error_throttle_timestamp_sms (fst (SMSHandler_emit env h r w)) k
           = error_throttle_timestamp_sms w k"
  using SMSHandler_emit_world [of env w r h]
  by (auto dest: throttle_open_world)

lemma SMSHandler_emit_own_key:
  "error_throttle_timestamp_sms (fst (SMSHandler_emit env h r w)) (rec_module r, rec_lineno r)
     = error_throttle_timestamp_sms w (rec_module r, rec_lineno r)
   \<or> (\<exists>c. clock_reads w \<le> c \<and> clock_reads (fst (SMSHandler_emit env h r w)) = Suc c
          \<and> error_throttle_timestamp_sms (fst (SMSHandler_emit env h r w)) (rec_module r, rec_lineno r)
              = Some (utcnow env c))"
  using SMSHandler_emit_world [of env w r h]
  by (auto dest: throttle_open_world)

lemma slack_webhooks_loop_world:
  "error_throttle_timestamp_sms (fst (slack_webhooks_loop env k l data hooks w))
     = error_throttle_timestamp_sms w
   \<and> (\<forall>k'. k' \<noteq> k \<longrightarrow> error_throttle_timestamp_slack (fst (slack_webhooks_loop env k l data hooks w)) k'
                          = error_throttle_timestamp_slack w k')
   \<and> clock_reads w \<le> clock_reads (fst (slack_webhooks_loop env k l data hooks w))
   \<and> (fst (slack_webhooks_loop env k l data hooks w) = w
       \<or> (\<exists>c. clock_reads w \<le> c
              \<and> clock_reads (fst (slack_webhooks_loop env k l data hooks w)) = Suc c
              \<and> error_throttle_timestamp_slack (fst (slack_webhooks_loop env k l data hooks w)) k
                  = Some (utcnow env c)))"
proof (induction hooks arbitrary: w)
  case Nil
  show ?case by simp
next
  case (Cons webhook rest)
  show ?case
  proof (cases "\<exists>names. webhook_levelnames webhook = Inr names
                  \<and> py_contains names (PStr l) = Inr True")
    case True
    then obtain names where
      names: "webhook_levelnames webhook = Inr names" "py_contains names (PStr l) = Inr True"
      by blast
    obtain w1 where post: "slack_post env webhook (slack_payload data webhook) w = (w1, Inr ())"
      using slack_post_returns [of env webhook "slack_payload data webhook" w]
      by (cases "slack_post env webhook (slack_payload data webhook) w") simp
    let ?w2 = "w1\<lparr>clock_reads := Suc (clock_reads w1),
                    error_throttle_timestamp_slack :=
                      (error_throttle_timestamp_slack w1)(k \<mapsto> utcnow env (clock_reads w1))\<rparr>"
    have step: "slack_webhooks_loop env k l data (webhook # rest) w
                  = slack_webhooks_loop env k l data rest ?w2"
      using names post by (simp add: read_clock_def)
    from Cons.IH [of ?w2] slack_post_world [OF post] show ?thesis
      unfolding step by auto
  next
    case False
    with Cons.IH [of w] show ?thesis
      by (auto split: sum.splits bool.splits)
  qed
qed

lemma SlackHandler_emit_world:
  "(\<exists>opened w1. throttle_open env (error_throttle_timestamp_slack w) (rec_module r, rec_lineno r) w
                    = (opened, w1)
                  \<and> fst (SlackHandler_emit env h r w) = w1)
   \<or> (\<exists>w1 l data hooks.
          throttle_open env (error_throttle_timestamp_slack w) (rec_module r, rec_lineno r) w
            = (True, w1)
        \<and> fst (SlackHandler_emit env h r w)
            = fst (slack_webhooks_loop env (rec_module r, rec_lineno r) l data hooks w1))"
proof -
  obtain opened w1 where
    t: "throttle_open env (error_throttle_timestamp_slack w) (rec_module r, rec_lineno r) w = (opened, w1)"
    by (cases "throttle_open env (error_throttle_timestamp_slack w) (rec_module r, rec_lineno r) w")
  show ?thesis
  proof (cases "opened \<and> (\<exists>hooks lnames message info. py_iter (webhooks h) = Inr hooks
                   \<and> all_levelnames hooks = Inr lnames \<and> PStr (rec_levelname r) \<in> set lnames
                   \<and> rec_message r = Some message \<and> exc_info_repr r = Inr info)")
    case True
    then obtain hooks lnames message info where
      sent: "opened" "py_iter (webhooks h) = Inr hooks" "all_levelnames hooks = Inr lnames"
            "PStr (rec_levelname r) \<in> set lnames" "rec_message r = Some message"
            "exc_info_repr r = Inr info"
      by blast
    have "SlackHandler_emit env h r w
            = slack_webhooks_loop env (rec_module r, rec_lineno r) (rec_levelname r)
                (slack_data h r message info) hooks w1"
      using t sent by (simp add: SlackHandler_emit_def Let_def)
    with t sent(1) show ?thesis by auto
  next
    case False
    with t have "fst (SlackHandler_emit env h r w) = w1"
      by (auto simp: SlackHandler_emit_def Let_def split: bool.splits option.splits sum.splits)
    with t show ?thesis by blast
  qed
qed

lemma SlackHandler_emit_frame:
  "error_throttle_timestamp_sms (fst (SlackHandler_emit env h r w)) = error_throttle_timestamp_sms w"
  "clock_reads w \<le> clock_reads (fst (SlackHandler_emit env h r w))"
  "k \<noteq> (rec_module r, rec_lineno r)
     \<Longrightarrow> error_throttle_timestamp_slack (fst (SlackHandler_emit env h r w)) k
           = error_throttle_timestamp_slack w k"
proof -
  from SlackHandler_emit_world [of env w r h]
  consider (quiet) opened w1 where
      "throttle_open env (error_throttle_timestamp_slack w) (rec_module r, rec_lineno r) w = (opened, w1)"
      "fst (SlackHandler_emit env h r w) = w1"
  | (sent) w1 l data hooks where
      "throttle_open env (error_throttle_timestamp_slack w) (rec_module r, rec_lineno r) w = (True, w1)"
      "fst (SlackHandler_emit env h r w)
         = fst (slack_webhooks_loop env (rec_module r, rec_lineno r) l data hooks w1)"
    by blast
  then have
    "error_throttle_timestamp_sms (fst (SlackHandler_emit env h r w)) = error_throttle_timestamp_sms w
     \<and> clock_reads w \<le> clock_reads (fst (SlackHandler_emit env h r w))
     \<and> (k \<noteq> (rec_module r, rec_lineno r)
          \<longrightarrow> error_throttle_timestamp_slack (fst (SlackHandler_emit env h r w)) k
                = error_throttle_timestamp_slack w k)"
  proof cases
    case quiet
    from throttle_open_world [OF quiet(1)] quiet(2) show ?thesis by simp
  next
    case sent
    note loop = slack_webhooks_loop_world [of env "(rec_module r, rec_lineno r)" l data hooks w1]
    from loop have sms:
      "error_throttle_timestamp_sms
         (fst (slack_webhooks_loop env (rec_module r, rec_lineno r) l data hooks w1))
       = error_throttle_timestamp_sms w1"
      by blast
    from loop have other:
      "k \<noteq> (rec_module r, rec_lineno r)
         \<longrightarrow> error_throttle_timestamp_slack
               (fst (slack_webhooks_loop env (rec_module r, rec_lineno r) l data hooks w1)) k
             = error_throttle_timestamp_slack w1 k"
      by blast
    from loop have clock:
      "clock_reads w1
         \<le> clock_reads (fst (slack_webhooks_loop env (rec_module r, rec_lineno r) l data hooks w1))"
      by blast
    from throttle_open_world [OF sent(1)] sms other clock sent(2)
    show ?thesis by simp
  qed
  then show
    "error_throttle_timestamp_sms (fst (SlackHandler_emit env h r w)) = error_throttle_timestamp_sms w"
    "clock_reads w \<le> clock_reads (fst (SlackHandler_emit env h r w))"
    "k \<noteq> (rec_module r, rec_lineno r)
       \<Longrightarrow> error_throttle_timestamp_slack (fst (SlackHandler_emit env h r w)) k
             = error_throttle_timestamp_slack w k"
    by simp_all
qed

lemma SlackHandler_emit_own_key:
  "error_throttle_timestamp_slack (fst (SlackHandler_emit env h r w)) (rec_module r, rec_lineno r)
     = error_throttle_timestamp_slack w (rec_module r, rec_lineno r)
   \<or> (\<exists>c. clock_reads w \<le> c \<and> clock_reads (fst (SlackHandler_emit env h r w)) = Suc c
          \<and> error_throttle_timestamp_slack (fst (SlackHandler_emit env h r w)) (rec_module r, rec_lineno r)
              = Some (utcnow env c))"
proof -
  from SlackHandler_emit_world [of env w r h]
  consider (quiet) opened w1 where
      "throttle_open env (error_throttle_timestamp_slack w) (rec_module r, rec_lineno r) w = (opened, w1)"
      "fst (SlackHandler_emit env h r w) = w1"
  | (sent) w1 l data hooks where
      "throttle_open env (error_throttle_timestamp_slack w) (rec_module r, rec_lineno r) w = (True, w1)"
      "fst (SlackHandler_emit env h r w)
         = fst (slack_webhooks_loop env (rec_module r, rec_lineno r) l data hooks w1)"
    by blast
  then show ?thesis
  proof cases
    case quiet
    from throttle_open_world [OF quiet(1)] quiet(2) show ?thesis by simp
  next
    case sent
    from throttle_open_world [OF sent(1)]
         slack_webhooks_loop_world [of env "(rec_module r, rec_lineno r)" l data hooks w1] sent(2)
    show ?thesis by auto
  qed
qed

lemma handle_keeps_sms_stamp:
  assumes "c1 \<le> c" and "c < clock_reads w"
    and "error_throttle_timestamp_sms w k = Some (utcnow env c)"
  shows "\<exists>c'. c1 \<le> c' \<and> c' < clock_reads (fst (handle env ev w))
              \<and> error_throttle_timestamp_sms (fst (handle env ev w)) k = Some (utcnow env c')"
proof (cases ev)
  case (SMS_emit h r)
  let ?w' = "fst (SMSHandler_emit env h r w)"
  have clock: "clock_reads w \<le> clock_reads ?w'"
    by (rule SMSHandler_emit_frame(2))
  have "\<exists>c'. c1 \<le> c' \<and> c' < clock_reads ?w'
              \<and> error_throttle_timestamp_sms ?w' k = Some (utcnow env c')"
  proof (cases "k = (rec_module r, rec_lineno r)")
    case True
    from SMSHandler_emit_own_key [of env h r w]
    consider
      (kept) "error_throttle_timestamp_sms ?w' k = error_throttle_timestamp_sms w k"
    | (stamped) c' where "clock_reads w \<le> c'" "clock_reads ?w' = Suc c'"
        "error_throttle_timestamp_sms ?w' k = Some (utcnow env c')"
      unfolding True by blast
    then show ?thesis
    proof cases
      case kept
      with assms clock show ?thesis
        by (intro exI [of _ c]) simp
    next
      case stamped
      with assms show ?thesis
        by (intro exI [of _ c']) simp
    qed
  next
    case False
    from SMSHandler_emit_frame(3) [OF False, of env h w] assms clock show ?thesis
      by (intro exI [of _ c]) simp
  qed
  then show ?thesis
    by (simp add: SMS_emit)
next
  case (Slack_emit h r)
  let ?w' = "fst (SlackHandler_emit env h r w)"
  have clock: "clock_reads w \<le> clock_reads ?w'"
    by (rule SlackHandler_emit_frame(2))
  have "error_throttle_timestamp_sms ?w' = error_throttle_timestamp_sms w"
    by (rule SlackHandler_emit_frame(1))
  with assms clock have
    "\<exists>c'. c1 \<le> c' \<and> c' < clock_reads ?w'
         \<and> error_throttle_timestamp_sms ?w' k = Some (utcnow env c')"
    by (intro exI [of _ c]) simp
  then show ?thesis
    by (simp add: Slack_emit)
qed

lemma handle_keeps_slack_stamp:
  assumes "c1 \<le> c" and "c < clock_reads w"
    and "error_throttle_timestamp_slack w k = Some (utcnow env c)"
  shows "\<exists>c'. c1 \<le> c' \<and> c' < clock_reads (fst (handle env ev w))
              \<and> error_throttle_timestamp_slack (fst (handle env ev w)) k = Some (utcnow env c')"
proof (cases ev)
  case (Slack_emit h r)
  let ?w' = "fst (SlackHandler_emit env h r w)"
  have clock: "clock_reads w \<le> clock_reads ?w'"
    by (rule SlackHandler_emit_frame(2))
  have "\<exists>c'. c1 \<le> c' \<and> c' < clock_reads ?w'
              \<and> error_throttle_timestamp_slack ?w' k = Some (utcnow env c')"
  proof (cases "k = (rec_module r, rec_lineno r)")
    case True
    from SlackHandler_emit_own_key [of env h r w]
    consider
      (kept) "error_throttle_timestamp_slack ?w' k = error_throttle_timestamp_slack w k"
    | (stamped) c' where "clock_reads w \<le> c'" "clock_reads ?w' = Suc c'"
        "error_throttle_timestamp_slack ?w' k = Some (utcnow env c')"
      unfolding True by blast
    then show ?thesis
    proof cases
      case kept
      with assms clock show ?thesis
        by (intro exI [of _ c]) simp
    next
      case stamped
      with assms show ?thesis
        by (intro exI [of _ c']) simp
    qed
  next
    case False
    from SlackHandler_emit_frame(3) [OF False, of env h w] assms clock show ?thesis
      by (intro exI [of _ c]) simp
  qed
  then show ?thesis
    by (simp add: Slack_emit)
next
  case (SMS_emit h r)
  let ?w' = "fst (SMSHandler_emit env h r w)"
  have clock: "clock_reads w \<le> clock_reads ?w'"
    by (rule SMSHandler_emit_frame(2))
  have "error_throttle_timestamp_slack ?w' = error_throttle_timestamp_slack w"
    by (rule SMSHandler_emit_frame(1))
  with assms clock have
    "\<exists>c'. c1 \<le> c' \<and> c' < clock_reads ?w'
         \<and> error_throttle_timestamp_slack ?w' k = Some (utcnow env c')"
    by (intro exI [of _ c]) simp
  then show ?thesis
    by (simp add: SMS_emit)
qed

lemma handle_all_keeps_sms_stamp:
  assumes "c1 \<le> c" and "c < clock_reads w"
    and "error_throttle_timestamp_sms w k = Some (utcnow env c)"
  shows "\<exists>c'. c1 \<le> c' \<and> c' < clock_reads (handle_all env calls w)
              \<and> error_throttle_timestamp_sms (handle_all env calls w) k = Some (utcnow env c')"
  using assms
proof (induction calls arbitrary: w c)
  case Nil
  then show ?case by auto
next
  case (Cons ev rest)
  from handle_keeps_sms_stamp [OF Cons.prems, of ev] obtain c' where
    "c1 \<le> c'" "c' < clock_reads (fst (handle env ev w))"
    "error_throttle_timestamp_sms (fst (handle env ev w)) k = Some (utcnow env c')"
    by blast
  from Cons.IH [OF this] show ?case by simp
qed

lemma handle_all_keeps_slack_stamp:
  assumes "c1 \<le> c" and "c < clock_reads w"
    and "error_throttle_timestamp_slack w k = Some (utcnow env c)"
  shows "\<exists>c'. c1 \<le> c' \<and> c' < clock_reads (handle_all env calls w)
              \<and> error_throttle_timestamp_slack (handle_all env calls w) k = Some (utcnow env c')"
  using assms
proof (induction calls arbitrary: w c)
  case Nil
  then show ?case by auto
next
  case (Cons ev rest)
  from handle_keeps_slack_stamp [OF Cons.prems, of ev] obtain c' where
    "c1 \<le> c'" "c' < clock_reads (fst (handle env ev w))"
    "error_throttle_timestamp_slack (fst (handle env ev w)) k = Some (utcnow env c')"
    by blast
  from Cons.IH [OF this] show ?case by simp
qed

lemma SMSHandler_emit_sent:
  assumes "http_posts (fst (SMSHandler_emit env h r w)) \<noteq> http_posts w"
  shows "\<exists>c. clock_reads (fst (SMSHandler_emit env h r w)) = Suc c
            \<and> error_throttle_timestamp_sms (fst (SMSHandler_emit env h r w)) (rec_module r, rec_lineno r)
                = Some (utcnow env c)"
proof -
  from SMSHandler_emit_world [of env w r h]
  consider (quiet) opened w1 where
      "throttle_open env (error_throttle_timestamp_sms w) (rec_module r, rec_lineno r) w = (opened, w1)"
      "fst (SMSHandler_emit env h r w) = w1"
  | (sent) w2 where
      "fst (SMSHandler_emit env h r w)
         = w2\<lparr>clock_reads := Suc (clock_reads w2),
              error_throttle_timestamp_sms :=
                (error_throttle_timestamp_sms w2)
                  ((rec_module r, rec_lineno r) \<mapsto> utcnow env (clock_reads w2))\<rparr>"
    by blast
  then show ?thesis
  proof cases
    case quiet
    from throttle_open_world [OF quiet(1)] quiet(2) assms show ?thesis by simp
  next
    case sent
    then show ?thesis by auto
  qed
qed

lemma SlackHandler_emit_sent:
  assumes "http_posts (fst (SlackHandler_emit env h r w)) \<noteq> http_posts w"
  shows "\<exists>c. clock_reads (fst (SlackHandler_emit env h r w)) = Suc c
            \<and> error_throttle_timestamp_slack (fst (SlackHandler_emit env h r w)) (rec_module r, rec_lineno r)
                = Some (utcnow env c)"
proof -
  from SlackHandler_emit_world [of env w r h]
  consider (quiet) opened w1 where
      "throttle_open env (error_throttle_timestamp_slack w) (rec_module r, rec_lineno r) w = (opened, w1)"
      "fst (SlackHandler_emit env h r w) = w1"
  | (sent) w1 l data hooks where
      "throttle_open env (error_throttle_timestamp_slack w) (rec_module r, rec_lineno r) w = (True, w1)"
      "fst (SlackHandler_emit env h r w)
         = fst (slack_webhooks_loop env (rec_module r, rec_lineno r) l data hooks w1)"
    by blast
  then show ?thesis
  proof cases
    case quiet
    from throttle_open_world [OF quiet(1)] quiet(2) assms show ?thesis by simp
  next
    case sent
    from throttle_open_world [OF sent(1)] have "http_posts w1 = http_posts w" by simp
    with sent(2) assms
    have moved: "fst (slack_webhooks_loop env (rec_module r, rec_lineno r) l data hooks w1) \<noteq> w1"
      by auto
    from slack_webhooks_loop_world [of env "(rec_module r, rec_lineno r)" l data hooks w1] moved sent(2)
    show ?thesis by auto
  qed
qed

lemma SMSHandler_emit_throttled:
  assumes "error_throttle_timestamp_sms w (rec_module r, rec_lineno r) = Some stamp"
    and "utcnow env (clock_reads w) - stamp \<le> five_minutes"
  shows "SMSHandler_emit env h r w = (w\<lparr>clock_reads := Suc (clock_reads w)\<rparr>, Inr ())"
  using assms
  by (simp add: SMSHandler_emit_def throttle_open_def read_clock_def Let_def)

lemma SMSHandler_throttled_after_send:
  assumes mono: "\<forall>m n. m \<le> n \<longrightarrow> utcnow env m \<le> utcnow env n"
    and posted: "http_posts (fst (SMSHandler_emit env h r w)) \<noteq> http_posts w"
    and key: "(rec_module r', rec_lineno r') = (rec_module r, rec_lineno r)"
    and within: "utcnow env (clock_reads (handle_all env calls (fst (SMSHandler_emit env h r w))))
                   - utcnow env (clock_reads (fst (SMSHandler_emit env h r w)) - 1) \<le> five_minutes"
  shows "SMSHandler_emit env h' r' (handle_all env calls (fst (SMSHandler_emit env h r w)))
           = ((handle_all env calls (fst (SMSHandler_emit env h r w)))
                \<lparr>clock_reads := Suc (clock_reads (handle_all env calls (fst (SMSHandler_emit env h r w))))\<rparr>,
              Inr ())"
proof -
  let ?w1 = "fst (SMSHandler_emit env h r w)"
  let ?w2 = "handle_all env calls ?w1"
  from SMSHandler_emit_sent [OF posted] obtain c1 where
    c1: "clock_reads ?w1 = Suc c1"
        "error_throttle_timestamp_sms ?w1 (rec_module r, rec_lineno r) = Some (utcnow env c1)"
    by blast
  from c1(1) have "c1 < clock_reads ?w1" by simp
  from handle_all_keeps_sms_stamp [OF le_refl this c1(2), of calls] obtain c' where
    c': "c1 \<le> c'"
        "error_throttle_timestamp_sms ?w2 (rec_module r, rec_lineno r) = Some (utcnow env c')"
    by blast
  from mono c'(1) have "utcnow env c1 \<le> utcnow env c'" by blast
  with within c1(1) have "utcnow env (clock_reads ?w2) - utcnow env c' \<le> five_minutes"
    by simp
  with c'(2) key show ?thesis
    by (intro SMSHandler_emit_throttled [where stamp = "utcnow env c'"]) simp_all
qed

lemma SlackHandler_emit_throttled:
  assumes "error_throttle_timestamp_slack w (rec_module r, rec_lineno r) = Some stamp"
    and "utcnow env (clock_reads w) - stamp \<le> five_minutes"
  shows "SlackHandler_emit env h r w = (w\<lparr>clock_reads := Suc (clock_reads w)\<rparr>, Inr ())"
  using assms
  by (simp add: SlackHandler_emit_def throttle_open_def read_clock_def Let_def)

lemma SlackHandler_throttled_after_send:
  assumes mono: "\<forall>m n. m \<le> n \<longrightarrow> utcnow env m \<le> utcnow env n"
    and posted: "http_posts (fst (SlackHandler_emit env h r w)) \<noteq> http_posts w"
    and key: "(rec_module r', rec_lineno r') = (rec_module r, rec_lineno r)"
    and within: "utcnow env (clock_reads (handle_all env calls (fst (SlackHandler_emit env h r w))))
                   - utcnow env (clock_reads (fst (SlackHandler_emit env h r w)) - 1) \<le> five_minutes"
  shows "SlackHandler_emit env h' r' (handle_all env calls (fst (SlackHandler_emit env h r w)))
           = ((handle_all env calls (fst (SlackHandler_emit env h r w)))
                \<lparr>clock_reads := Suc (clock_reads (handle_all env calls (fst (SlackHandler_emit env h r w))))\<rparr>,
              Inr ())"
proof -
  let ?w1 = "fst (SlackHandler_emit env h r w)"
  let ?w2 = "handle_all env calls ?w1"
  from SlackHandler_emit_sent [OF posted] obtain c1 where
    c1: "clock_reads ?w1 = Suc c1"
        "error_throttle_timestamp_slack ?w1 (rec_module r, rec_lineno r) = Some (utcnow env c1)"
    by blast
  from c1(1) have "c1 < clock_reads ?w1" by simp
  from handle_all_keeps_slack_stamp [OF le_refl this c1(2), of calls] obtain c' where
    c': "c1 \<le> c'"
        "error_throttle_timestamp_slack ?w2 (rec_module r, rec_lineno r) = Some (utcnow env c')"
    by blast
  from mono c'(1) have "utcnow env c1 \<le> utcnow env c'" by blast
  with within c1(1) have "utcnow env (clock_reads ?w2) - utcnow env c' \<le> five_minutes"
    by simp
  with c'(2) key show ?thesis
    by (intro SlackHandler_emit_throttled [where stamp = "utcnow env c'"]) simp_all
qed

text \<open>
  Claim C8. Error notifications are throttled per source location. A record whose key
  \<open>(record.module, record.lineno)\<close> has a recorded send, arriving when the clock reads no
  more than five minutes past it, makes \<open>SMSHandler.emit\<close> and \<open>SlackHandler.emit\<close> return
  without a post and without a change to the tables; only the clock has been read. Every
  send is recorded: an \<open>emit\<close> that posts leaves at the record's key the last time it read
  from the clock. An \<open>emit\<close> changes no other key of its table, and nothing of the other
  handler's table. Hence, on a clock that does not run backwards: once an \<open>emit\<close> has
  posted for a key, then after any further calls of either \<open>emit\<close>, for any records, a
  record with the same key that arrives no more than five minutes after that send was
  recorded produces no post.
\<close>

theorem throttled_within_five_minutes:
  "(error_throttle_timestamp_sms w (rec_module r, rec_lineno r) = Some stamp
      \<and> utcnow env (clock_reads w) - stamp \<le> five_minutes
      \<longrightarrow> SMSHandler_emit env sms r w = (w\<lparr>clock_reads := Suc (clock_reads w)\<rparr>, Inr ()))
   \<and> (error_throttle_timestamp_slack w (rec_module r, rec_lineno r) = Some stamp'
      \<and> utcnow env (clock_reads w) - stamp' \<le> five_minutes
      \<longrightarrow> SlackHandler_emit env slack r w = (w\<lparr>clock_reads := Suc (clock_reads w)\<rparr>, Inr ()))
   \<and> (http_posts (fst (SMSHandler_emit env sms r w)) \<noteq> http_posts w
      \<longrightarrow> error_throttle_timestamp_sms (fst (SMSHandler_emit env sms r w)) (rec_module r, rec_lineno r)
            = Some (utcnow env (clock_reads (fst (SMSHandler_emit env sms r w)) - 1)))
   \<and> (http_posts (fst (SlackHandler_emit env slack r w)) \<noteq> http_posts w
      \<longrightarrow> error_throttle_timestamp_slack (fst (SlackHandler_emit env slack r w))
              (rec_module r, rec_lineno r)
            = Some (utcnow env (clock_reads (fst (SlackHandler_emit env slack r w)) - 1)))
   \<and> (k \<noteq> (rec_module r, rec_lineno r)
      \<longrightarrow> error_throttle_timestamp_sms (fst (SMSHandler_emit env sms r w)) k
            = error_throttle_timestamp_sms w k)
   \<and> error_throttle_timestamp_slack (fst (SMSHandler_emit env sms r w))
       = error_throttle_timestamp_slack w
   \<and> (k \<noteq> (rec_module r, rec_lineno r)
      \<longrightarrow> error_throttle_timestamp_slack (fst (SlackHandler_emit env slack r w)) k
            = error_throttle_timestamp_slack w k)
   \<and> error_throttle_timestamp_sms (fst (SlackHandler_emit env slack r w))
       = error_throttle_timestamp_sms w
   \<and> ((\<forall>m n. m \<le> n \<longrightarrow> utcnow env m \<le> utcnow env n)
      \<and> http_posts (fst (SMSHandler_emit env sms r w)) \<noteq> http_posts w
      \<and> (rec_module r', rec_lineno r') = (rec_module r, rec_lineno r)
      \<and> utcnow env (clock_reads (handle_all env calls (fst (SMSHandler_emit env sms r w))))
           - utcnow env (clock_reads (fst (SMSHandler_emit env sms r w)) - 1) \<le> five_minutes
      \<longrightarrow> SMSHandler_emit env sms' r' (handle_all env calls (fst (SMSHandler_emit env sms r w)))
            = ((handle_all env calls (fst (SMSHandler_emit env sms r w)))
                 \<lparr>clock_reads :=
                    Suc (clock_reads (handle_all env calls (fst (SMSHandler_emit env sms r w))))\<rparr>,
               Inr ()))
   \<and> ((\<forall>m n. m \<le> n \<longrightarrow> utcnow env m \<le> utcnow env n)
      \<and> http_posts (fst (SlackHandler_emit env slack r w)) \<noteq> http_posts w
      \<and> (rec_module r', rec_lineno r') = (rec_module r, rec_lineno r)
      \<and> utcnow env (clock_reads (handle_all env calls (fst (SlackHandler_emit env slack r w))))
           - utcnow env (clock_reads (fst (SlackHandler_emit env slack r w)) - 1) \<le> five_minutes
      \<longrightarrow> SlackHandler_emit env slack' r' (handle_all env calls (fst (SlackHandler_emit env slack r w)))
            = ((handle_all env calls (fst (SlackHandler_emit env slack r w)))
                 \<lparr>clock_reads :=
                    Suc (clock_reads (handle_all env calls (fst (SlackHandler_emit env slack r w))))\<rparr>,
               Inr ()))"
proof -
  have sms_throttled:
    "(error_throttle_timestamp_sms w (rec_module r, rec_lineno r) = Some stamp
       \<and> utcnow env (clock_reads w) - stamp \<le> five_minutes
       \<longrightarrow> SMSHandler_emit env sms r w = (w\<lparr>clock_reads := Suc (clock_reads w)\<rparr>, Inr ()))"
    by (auto intro: SMSHandler_emit_throttled)
  have slack_throttled:
    "(error_throttle_timestamp_slack w (rec_module r, rec_lineno r) = Some stamp'
       \<and> utcnow env (clock_reads w) - stamp' \<le> five_minutes
       \<longrightarrow> SlackHandler_emit env slack r w = (w\<lparr>clock_reads := Suc (clock_reads w)\<rparr>, Inr ()))"
    by (auto intro: SlackHandler_emit_throttled)
  have sms_recorded:
    "(http_posts (fst (SMSHandler_emit env sms r w)) \<noteq> http_posts w
       \<longrightarrow> error_throttle_timestamp_sms (fst (SMSHandler_emit env sms r w)) (rec_module r, rec_lineno r)
             = Some (utcnow env (clock_reads (fst (SMSHandler_emit env sms r w)) - 1)))"
    using SMSHandler_emit_sent [of env sms r w] by auto
  have slack_recorded:
    "(http_posts (fst (SlackHandler_emit env slack r w)) \<noteq> http_posts w
       \<longrightarrow> error_throttle_timestamp_slack (fst (SlackHandler_emit env slack r w))
               (rec_module r, rec_lineno r)
             = Some (utcnow env (clock_reads (fst (SlackHandler_emit env slack r w)) - 1)))"
    using SlackHandler_emit_sent [of env slack r w] by auto
  have sms_other_keys:
    "(k \<noteq> (rec_module r, rec_lineno r)
       \<longrightarrow> error_throttle_timestamp_sms (fst (SMSHandler_emit env sms r w)) k
             = error_throttle_timestamp_sms w k)"
    by (simp add: SMSHandler_emit_frame(3))
  have sms_slack_table:
    "error_throttle_timestamp_slack (fst (SMSHandler_emit env sms r w))
        = error_throttle_timestamp_slack w"
    by (rule SMSHandler_emit_frame(1))
  have slack_other_keys:
    "(k \<noteq> (rec_module r, rec_lineno r)
       \<longrightarrow> error_throttle_timestamp_slack (fst (SlackHandler_emit env slack r w)) k
             = error_throttle_timestamp_slack w k)"
    by (simp add: SlackHandler_emit_frame(3))
  have slack_sms_table:
    "error_throttle_timestamp_sms (fst (SlackHandler_emit env slack r w))
        = error_throttle_timestamp_sms w"
    by (rule SlackHandler_emit_frame(1))
  have sms_trace:
    "((\<forall>m n. m \<le> n \<longrightarrow> utcnow env m \<le> utcnow env n)
       \<and> http_posts (fst (SMSHandler_emit env sms r w)) \<noteq> http_posts w
       \<and> (rec_module r', rec_lineno r') = (rec_module r, rec_lineno r)
       \<and> utcnow env (clock_reads (handle_all env calls (fst (SMSHandler_emit env sms r w))))
            - utcnow env (clock_reads (fst (SMSHandler_emit env sms r w)) - 1) \<le> five_minutes
       \<longrightarrow> SMSHandler_emit env sms' r' (handle_all env calls (fst (SMSHandler_emit env sms r w)))
             = ((handle_all env calls (fst (SMSHandler_emit env sms r w)))
                  \<lparr>clock_reads :=
                     Suc (clock_reads (handle_all env calls (fst (SMSHandler_emit env sms r w))))\<rparr>,
                Inr ()))"
    using SMSHandler_throttled_after_send [of env sms r w r' calls sms'] by blast
  have slack_trace:
    "((\<forall>m n. m \<le> n \<longrightarrow> utcnow env m \<le> utcnow env n)
       \<and> http_posts (fst (SlackHandler_emit env slack r w)) \<noteq> http_posts w
       \<and> (rec_module r', rec_lineno r') = (rec_module r, rec_lineno r)
       \<and> utcnow env (clock_reads (handle_all env calls (fst (SlackHandler_emit env slack r w))))
            - utcnow env (clock_reads (fst (SlackHandler_emit env slack r w)) - 1) \<le> five_minutes
       \<longrightarrow> SlackHandler_emit env slack' r' (handle_all env calls (fst (SlackHandler_emit env slack r w)))
             = ((handle_all env calls (fst (SlackHandler_emit env slack r w)))
                  \<lparr>clock_reads :=
                     Suc (clock_reads (handle_all env calls (fst (SlackHandler_emit env slack r w))))\<rparr>,
                Inr ()))"
    using SlackHandler_throttled_after_send [of env slack r w r' calls slack'] by blast
  from sms_throttled slack_throttled sms_recorded slack_recorded sms_other_keys sms_slack_table slack_other_keys slack_sms_table sms_trace slack_trace
  show ?thesis
    by blast
qed

subsection \<open>C6 and C7: \<open>init_app\<close>\<close>


lemma addHandler_fields [simp]:
  "app_logger_handlers (application (addHandler h st)) = app_logger_handlers (application st) @ [h]"
  "app_config (application (addHandler h st)) = app_config (application st)"
  "app_name (application (addHandler h st)) = app_name (application st)"
  "logging_handlers_module (addHandler h st) = logging_handlers_module st"
  by (simp_all add: addHandler_def)

lemma init_app_file_step:
  "init_app_file env st =
     (case file_handler_error env (app_config (application st)) of
        Some e \<Rightarrow> (st, Inl e)
      | None \<Rightarrow>
          (if logfile_disabled (app_config (application st)) then st
           else addHandler \<lparr>att_handler = FileHandler (error_log_file (app_config (application st))),
                            att_level = WARNING, att_formatter = True\<rparr> st,
           Inr ()))"
  by (simp add: init_app_file_def file_handler_error_def logfile_disabled_def error_log_file_def Let_def
      split: option.splits)




lemma kind_of_mail_handler [simp]: "kind_of (mail_handler app mail_sender) = MailKind"
  by (simp add: mail_handler_def Let_def)











subsection \<open>C7: what \<open>init_app\<close> writes\<close>








lemma logfile_5_raises:
  "logger_init_app stdlib_constructors logfile_5
     = (logfile_5, Inl (TypeError ''expected str, bytes or os.PathLike object''))"
  by (simp add: logger_init_app_def init_app_file_step file_handler_error_def error_log_file_def
        logfile_5_def stdlib_logging_def example_app_def stdlib_constructors_def)


subsection \<open>The example application, evaluated\<close>

lemmas logger_example_defs =
  example_config_def example_app_def example_sms_def example_slack_def failing_network_def
  fresh_world_def example_record_def

lemmas emit_defs =
  SMSHandler_emit_def SlackHandler_emit_def throttle_open_def read_clock_def requests_post_def
  sendsms_def sendsms_try_def exc_info_repr_def slack_post_def slack_post_try_def
  slack_payload_def slack_data_def slack_sections_def webhook_get_def webhook_levelnames_def
  config_item_def startswith_def Let_def

lemma after_sms_emit_world:
  "after_sms_emit =
     \<lparr>clock_reads = 1,
      http_posts =
        [\<lparr>post_url = ExotelUrl (PStr ''exotel-sid''),
          post_auth = Some (PStr ''exotel-sid'', PStr ''exotel-token''),
          post_payload =
            [(''From'', PStr ''0801234567''), (''To'', PStr ''+919845012345''),
             (''Body'', PStr ''Error in testapp. Boom: ValueError(). Please check your email for details'')]\<rparr>,
         \<lparr>post_url = TwilioUrl (PStr ''twilio-sid''),
          post_auth = Some (PStr ''twilio-sid'', PStr ''twilio-token''),
          post_payload =
            [(''From'', PStr ''+15550000000''), (''To'', PStr ''+15551234567''),
             (''Body'', PStr ''Error in testapp. Boom: ValueError(). Please check your email for details'')]\<rparr>],
      error_throttle_timestamp_sms = (\<lambda>k. None)((''views'', 42) \<mapsto> 0),
      error_throttle_timestamp_slack = (\<lambda>k. None)\<rparr>"
  by (simp add: after_sms_emit_def emit_defs logger_example_defs)

lemma after_slack_emit_world:
  "after_slack_emit =
     \<lparr>clock_reads = 1,
      http_posts =
        [\<lparr>post_url = WebhookUrl (PStr ''https://hooks.slack.com/T0''),
          post_auth = None,
          post_payload =
            [(''text'', PStr ''*ERROR* in testapp: Boom: `ValueError()`''),
             (''attachments'', PList []),
             (''channel'', PStr ''#alerts'')]\<rparr>],
      error_throttle_timestamp_sms = (\<lambda>k. None),
      error_throttle_timestamp_slack = (\<lambda>k. None)((''views'', 42) \<mapsto> 0)\<rparr>"
  by (simp add: after_slack_emit_def emit_defs logger_example_defs)

lemma slack_emit_returns_example:
  "snd (SlackHandler_emit failing_network example_slack example_record fresh_world) = Inr ()"
  by (simp add: emit_defs logger_example_defs)

lemma formatException_example:
  "formatException no_context example_exc_info =
     Inr (''ValueError'' @ NL @ NL @ ''----------'' @ NL @ NL
          @ ''Stack frames (most recent call first):'' @ NL @ NL @ ''----'' @ NL @ NL
          @ ''Frame view in views.py at line 42'' @ NL
          @ TAB @ replicate 19 CHR '' '' @ ''x =  1'' @ NL
          @ TAB @ replicate 16 CHR '' '' @ ''conn =  <ERROR WHILE PRINTING VALUE>'' @ NL @ NL
          @ ''----'' @ NL @ NL
          @ ''Frame dispatch in app.py at line 7'')"
  by code_simp


lemma after_both_emits_world:
  "handle_all failing_network [Slack_emit example_slack example_record] after_sms_emit =
     \<lparr>clock_reads = 2,
      http_posts =
        http_posts after_sms_emit
        @ [\<lparr>post_url = WebhookUrl (PStr ''https://hooks.slack.com/T0''),
             post_auth = None,
             post_payload =
               [(''text'', PStr ''*ERROR* in testapp: Boom: `ValueError()`''),
                (''attachments'', PList []),
                (''channel'', PStr ''#alerts'')]\<rparr>],
      error_throttle_timestamp_sms = (\<lambda>k. None)((''views'', 42) \<mapsto> 0),
      error_throttle_timestamp_slack = (\<lambda>k. None)((''views'', 42) \<mapsto> 60000000)\<rparr>"
  by (simp add: after_sms_emit_world emit_defs logger_example_defs)

lemma after_both_emits_slack_first_world:
  "handle_all failing_network [SMS_emit example_sms example_record] after_slack_emit =
     \<lparr>clock_reads = 2,
      http_posts =
        http_posts after_slack_emit
        @ [\<lparr>post_url = ExotelUrl (PStr ''exotel-sid''),
             post_auth = Some (PStr ''exotel-sid'', PStr ''exotel-token''),
             post_payload =
               [(''From'', PStr ''0801234567''), (''To'', PStr ''+919845012345''),
                (''Body'', PStr ''Error in testapp. Boom: ValueError(). Please check your email for details'')]\<rparr>,
           \<lparr>post_url = TwilioUrl (PStr ''twilio-sid''),
             post_auth = Some (PStr ''twilio-sid'', PStr ''twilio-token''),
             post_payload =
               [(''From'', PStr ''+15550000000''), (''To'', PStr ''+15551234567''),
                (''Body'', PStr ''Error in testapp. Boom: ValueError(). Please check your email for details'')]\<rparr>],
      error_throttle_timestamp_sms = (\<lambda>k. None)((''views'', 42) \<mapsto> 60000000),
      error_throttle_timestamp_slack = (\<lambda>k. None)((''views'', 42) \<mapsto> 0)\<rparr>"
  by (simp add: after_slack_emit_world emit_defs logger_example_defs)

theorem throttled_within_five_minutes_witness:
  "error_throttle_timestamp_sms after_sms_emit (rec_module example_record, rec_lineno example_record) = Some 0
   \<and> utcnow failing_network (clock_reads after_sms_emit) - 0 \<le> five_minutes
   \<and> SMSHandler_emit failing_network example_sms example_record after_sms_emit
       = (after_sms_emit\<lparr>clock_reads := Suc (clock_reads after_sms_emit)\<rparr>, Inr ())
   \<and> error_throttle_timestamp_slack after_slack_emit (rec_module example_record, rec_lineno example_record)
       = Some 0
   \<and> utcnow failing_network (clock_reads after_slack_emit) - 0 \<le> five_minutes
   \<and> SlackHandler_emit failing_network example_slack example_record after_slack_emit
       = (after_slack_emit\<lparr>clock_reads := Suc (clock_reads after_slack_emit)\<rparr>, Inr ())
   \<and> length (http_posts after_sms_emit) = 2
   \<and> length (http_posts after_slack_emit) = 1
   \<and> http_posts fresh_world = []
   \<and> error_throttle_timestamp_sms after_sms_emit (rec_module example_record, rec_lineno example_record)
       = Some (utcnow failing_network (clock_reads after_sms_emit - 1))
   \<and> error_throttle_timestamp_slack after_slack_emit (rec_module example_record, rec_lineno example_record)
       = Some (utcnow failing_network (clock_reads after_slack_emit - 1))
   \<and> error_throttle_timestamp_sms after_sms_emit (''models'', 7)
       = error_throttle_timestamp_sms fresh_world (''models'', 7)
   \<and> clock_reads (handle_all failing_network [Slack_emit example_slack example_record] after_sms_emit) = 2
   \<and> length (http_posts
                (handle_all failing_network [Slack_emit example_slack example_record] after_sms_emit)) = 3
   \<and> SMSHandler_emit failing_network example_sms example_record
         (handle_all failing_network [Slack_emit example_slack example_record] after_sms_emit)
       = ((handle_all failing_network [Slack_emit example_slack example_record] after_sms_emit)
            \<lparr>clock_reads := 3\<rparr>,
          Inr ())
   \<and> error_throttle_timestamp_slack after_slack_emit (''models'', 7)
       = error_throttle_timestamp_slack fresh_world (''models'', 7)
   \<and> clock_reads (handle_all failing_network [SMS_emit example_sms example_record] after_slack_emit) = 2
   \<and> SlackHandler_emit failing_network example_slack example_record
         (handle_all failing_network [SMS_emit example_sms example_record] after_slack_emit)
       = ((handle_all failing_network [SMS_emit example_sms example_record] after_slack_emit)
            \<lparr>clock_reads := 3\<rparr>,
          Inr ())"
proof -
  have sms: "error_throttle_timestamp_sms after_sms_emit (rec_module example_record, rec_lineno example_record)
               = Some 0"
            "utcnow failing_network (clock_reads after_sms_emit) - 0 \<le> five_minutes"
            "length (http_posts after_sms_emit) = 2"
            "clock_reads after_sms_emit = 1"
    by (simp_all add: after_sms_emit_world example_record_def failing_network_def five_minutes_def)
  have slack: "error_throttle_timestamp_slack after_slack_emit
                 (rec_module example_record, rec_lineno example_record) = Some 0"
              "utcnow failing_network (clock_reads after_slack_emit) - 0 \<le> five_minutes"
              "length (http_posts after_slack_emit) = 1"
    by (simp_all add: after_slack_emit_world example_record_def failing_network_def five_minutes_def)
  have fresh: "http_posts fresh_world = []"
    by (simp add: fresh_world_def)
  have posted: "http_posts after_sms_emit \<noteq> http_posts fresh_world"
               "http_posts after_slack_emit \<noteq> http_posts fresh_world"
    using sms(3) slack(3) fresh by auto
  have clock: "\<forall>m n. m \<le> n \<longrightarrow> utcnow failing_network m \<le> utcnow failing_network n"
    by (simp add: failing_network_def)
  have both: "clock_reads (handle_all failing_network [Slack_emit example_slack example_record] after_sms_emit)
                = 2"
             "length (http_posts
                        (handle_all failing_network [Slack_emit example_slack example_record] after_sms_emit))
                = 3"
    unfolding after_both_emits_world using sms(3) by simp_all
  have within:
    "utcnow failing_network
       (clock_reads (handle_all failing_network [Slack_emit example_slack example_record] after_sms_emit))
     - utcnow failing_network (clock_reads after_sms_emit - 1) \<le> five_minutes"
    unfolding both(1) sms(4) by (simp add: failing_network_def five_minutes_def)
  have other: "(''models'', 7) \<noteq> (rec_module example_record, rec_lineno example_record)"
    by (simp add: example_record_def)
  have slack_clock: "clock_reads after_slack_emit = 1"
    by (simp add: after_slack_emit_world)
  have both': "clock_reads (handle_all failing_network [SMS_emit example_sms example_record] after_slack_emit)
                 = 2"
    unfolding after_both_emits_slack_first_world by simp
  have within':
    "utcnow failing_network
       (clock_reads (handle_all failing_network [SMS_emit example_sms example_record] after_slack_emit))
     - utcnow failing_network (clock_reads after_slack_emit - 1) \<le> five_minutes"
    unfolding both' slack_clock by (simp add: failing_network_def five_minutes_def)
  from throttled_within_five_minutes
         [where w = after_sms_emit and r = example_record and stamp = 0 and env = failing_network
            and sms = example_sms]
       throttled_within_five_minutes
         [where w = after_slack_emit and r = example_record and stamp' = 0 and env = failing_network
            and slack = example_slack]
       throttled_within_five_minutes
         [where w = fresh_world and r = example_record and env = failing_network
            and sms = example_sms and slack = example_slack and k = "(''models'', 7)"
            and r' = example_record and sms' = example_sms
            and calls = "[Slack_emit example_slack example_record]"]
       throttled_within_five_minutes
         [where w = fresh_world and r = example_record and env = failing_network
            and sms = example_sms and slack = example_slack and k = "(''models'', 7)"
            and r' = example_record and slack' = example_slack
            and calls = "[SMS_emit example_sms example_record]"]
       sms(1-3) slack fresh posted clock both within other both' within'
  show ?thesis
    unfolding after_sms_emit_def [symmetric] after_slack_emit_def [symmetric]
    by (simp add: numeral_3_eq_3 numeral_2_eq_2)
qed


lemma example_app_handlers:
  "app_logger_handlers (application (fst (logger_init_app stdlib_constructors stdlib_logging))) =
     [\<lparr>att_handler = FileHandler (PStr ''error.log''), att_level = WARNING, att_formatter = True\<rparr>,
      \<lparr>att_handler = SMSHandler example_sms, att_level = ERROR, att_formatter = False\<rparr>,
      \<lparr>att_handler = SlackHandler example_slack, att_level = NOTSET, att_formatter = True\<rparr>,
      \<lparr>att_handler = SMTPHandler (PStr ''localhost'') (PStr ''test@example.com'')
                       (PList [PStr ''admin@example.com'']) ''testapp failure'' None,
       att_level = ERROR, att_formatter = True\<rparr>]"
  by (simp add: logger_init_app_def init_app_mail_def init_app_slack_def init_app_sms_def
        init_app_file_def addHandler_def config_truthy_def config_item_def sms_keys_def
        configured_mail_sender_def mail_sender_address_def mail_handler_def error_log_file_def
        stdlib_logging_def stdlib_constructors_def
        example_app_def example_config_def example_sms_def example_slack_def Let_def)



end
